theory Spec2Isabelle
  imports Complex_Main
begin

section \<open>Data model (Data/ChatMessage.h)\<close>

text \<open>
  Engine objects are referred to by address. An \<open>APlayerState*\<close> or a
  \<open>UChatComponent*\<close> is a \<open>nat option\<close>, \<open>None\<close> being \<open>nullptr\<close>.
  What \<open>GetOwner()\<close> returns is an actor that either is a player state or is not;
  \<open>Cast<APlayerState>\<close> succeeds on the first kind only.
\<close>

datatype EChatChannel = Global | Team | Whisper | System | Proximity | Custom

datatype AActor = APlayerState nat | AOtherActor nat

text \<open>
  \<open>FChatMessage\<close>. The colour type \<open>'c\<close> stands for the engine's \<open>FLinearColor\<close>,
  the timestamp is an \<open>FDateTime\<close> tick count.
\<close>

record 'c FChatMessage =
  Sender :: "nat option"
  SenderName :: string
  Content :: string
  Channel :: EChatChannel
  Timestamp :: int
  MessageColor :: 'c
  WhisperTarget :: "nat option"

text \<open>
  \<open>FChatSettings\<close>. The type \<open>'f\<close> stands for the C++ \<open>float\<close>: the functions below
  use on it only the operations the code itself performs (\<open>-\<close>, \<open>*\<close>, \<open><\<close>, \<open>\<le>\<close>),
  and no law of arithmetic beyond the order being linear (no NaN). The \<open>int32\<close>
  members are integers: the code compares them, prints them, and subtracts only a
  smaller positive count from a length, so nothing can overflow.
\<close>

record 'f FChatSettings =
  MaxMessageLength :: int
  MessageCooldown :: 'f
  MaxHistorySize :: int
  bEnableProfanityFilter :: bool
  ProximityChatRadius :: 'f
  bAllowEmptyMessages :: bool

section \<open>The engine services the plugin calls\<close>

record 'f UWorld =
  AuthGameMode :: bool
  TimeSeconds :: 'f

text \<open>
  Everything the two classes read from the engine, none of which is code of the plugin:
  the world (\<open>None\<close> when \<open>GetWorld()\<close> is null; \<open>AuthGameMode\<close> tells whether
  \<open>GetAuthGameMode()\<close> is non-null), the owner of a component, the pawn of a player
  state, the location of a pawn, a player's name, \<open>FDateTime::Now()\<close>,
  \<open>FVector::DistSquared\<close> (with the result as the \<open>float\<close> the code stores it in),
  the rendering of a float by the format \<open>%.1f\<close>, and \<open>FLinearColor::White\<close>.
\<close>

record ('f, 'v, 'c) Engine =
  GetWorld :: "'f UWorld option"
  GetOwner :: "nat \<Rightarrow> AActor option"
  GetPawn :: "nat \<Rightarrow> nat option"
  GetActorLocation :: "nat \<Rightarrow> 'v"
  GetPlayerName :: "nat \<Rightarrow> string"
  DateTime_Now :: int
  DistSquared :: "'v \<Rightarrow> 'v \<Rightarrow> 'f"
  Printf_1f :: "'f \<Rightarrow> string"
  White :: 'c

text \<open>The format \<open>%d\<close> of \<open>FString::Printf\<close> on an \<open>int32\<close>: decimal digits, with a sign.\<close>

definition digit_char :: "nat \<Rightarrow> char" where
  "digit_char d = ''0123456789'' ! d"

function digits :: "nat \<Rightarrow> string" where
  "digits n = (if n < 10 then [digit_char n] else digits (n div 10) @ [digit_char (n mod 10)])"
  by pat_completeness auto
termination
  by (relation "measure (\<lambda>n. n)") auto

declare digits.simps [simp del]

definition Printf_d :: "int \<Rightarrow> string" where
  "Printf_d i = (if i < 0 then ''-'' @ digits (nat (- i)) else digits (nat i))"

section \<open>UChatSubsystem (ChatSubsystem.h, ChatSubsystem.cpp)\<close>

text \<open>
  The members of the subsystem. \<open>RegisteredComponents\<close> holds object pointers, which
  the code tests for null wherever it walks the array. \<open>PlayerMessageTimes\<close> is the
  \<open>TMap\<close> from player state to the time of the last accepted message.
\<close>

record ('f, 'c) UChatSubsystem =
  ChatSettings :: "'f FChatSettings"
  MessageHistory :: "'c FChatMessage list"
  RegisteredComponents :: "nat option list"
  PlayerMessageTimes :: "nat \<rightharpoonup> 'f"

text \<open>
  A remote procedure call issued on a component: the two client RPCs and the server
  RPC of \<open>UChatComponent\<close>, each with the address of the component it is invoked on.
\<close>

datatype 'c RPC =
  ClientReceiveMessage nat "'c FChatMessage"
  | ClientNotifyMessageFailed nat string
  | ServerSendMessage nat string EChatChannel "nat option"

text \<open>
  \<open>ValidateMessage\<close>, lines 154 to 185. The out parameter \<open>OutFailureReason\<close> is passed
  in and returned: a message that passes leaves it as it was.
\<close>

definition ValidateMessage ::
  "('f, 'c) UChatSubsystem \<Rightarrow> 'c FChatMessage \<Rightarrow> string \<Rightarrow> bool \<times> string" where
  "ValidateMessage s Message OutFailureReason =
     (if Content Message = [] \<and> \<not> bAllowEmptyMessages (ChatSettings s)
      then (False, ''Message content is empty'')
      else if int (length (Content Message)) > MaxMessageLength (ChatSettings s)
      then (False, ''Message too long (max '' @ Printf_d (MaxMessageLength (ChatSettings s))
                     @ '' characters)'')
      else if Channel Message \<noteq> System \<and> Sender Message = None
      then (False, ''Invalid sender'')
      else if Channel Message = Whisper \<and> WhisperTarget Message = None
      then (False, ''Whisper requires a target player'')
      else (True, OutFailureReason))"

text \<open>
  \<open>SendToAllPlayers\<close>, lines 219 to 228: every entry that is not null and has an owner
  is sent the message. The result is the list of RPCs issued, in order.
\<close>

fun SendToAllPlayers_loop ::
  "('f, 'v, 'c) Engine \<Rightarrow> nat option list \<Rightarrow> 'c FChatMessage \<Rightarrow> 'c RPC list" where
  "SendToAllPlayers_loop E [] Message = []"
| "SendToAllPlayers_loop E (Component # rest) Message =
     (case Component of
        None \<Rightarrow> SendToAllPlayers_loop E rest Message
      | Some c \<Rightarrow>
          (if GetOwner E c \<noteq> None
           then ClientReceiveMessage c Message # SendToAllPlayers_loop E rest Message
           else SendToAllPlayers_loop E rest Message))"

definition SendToAllPlayers ::
  "('f, 'v, 'c) Engine \<Rightarrow> ('f, 'c) UChatSubsystem \<Rightarrow> 'c FChatMessage \<Rightarrow> 'c RPC list" where
  "SendToAllPlayers E s Message = SendToAllPlayers_loop E (RegisteredComponents s) Message"

text \<open>\<open>SendToTeam\<close>, lines 230 to 246: no team model, all players as a fallback.\<close>

definition SendToTeam ::
  "('f, 'v, 'c) Engine \<Rightarrow> ('f, 'c) UChatSubsystem \<Rightarrow> 'c FChatMessage \<Rightarrow> 'c RPC list" where
  "SendToTeam E s Message =
     (if Sender Message = None then [] else SendToAllPlayers E s Message)"

text \<open>
  \<open>GetChatComponentForPlayer\<close>, lines 318 to 334: the first entry that is not null and
  whose owner is the given player state.
\<close>

fun GetChatComponentForPlayer_loop ::
  "('f, 'v, 'c) Engine \<Rightarrow> nat option list \<Rightarrow> nat \<Rightarrow> nat option" where
  "GetChatComponentForPlayer_loop E [] p = None"
| "GetChatComponentForPlayer_loop E (Component # rest) p =
     (case Component of
        None \<Rightarrow> GetChatComponentForPlayer_loop E rest p
      | Some c \<Rightarrow>
          (if GetOwner E c = Some (APlayerState p) then Some c
           else GetChatComponentForPlayer_loop E rest p))"

definition GetChatComponentForPlayer ::
  "('f, 'v, 'c) Engine \<Rightarrow> ('f, 'c) UChatSubsystem \<Rightarrow> nat option \<Rightarrow> nat option" where
  "GetChatComponentForPlayer E s PlayerState =
     (case PlayerState of
        None \<Rightarrow> None
      | Some p \<Rightarrow> GetChatComponentForPlayer_loop E (RegisteredComponents s) p)"

text \<open>\<open>SendToPlayer\<close>, lines 248 to 271: the target's component, then the sender's.\<close>

definition SendToPlayer ::
  "('f, 'v, 'c) Engine \<Rightarrow> ('f, 'c) UChatSubsystem \<Rightarrow> 'c FChatMessage \<Rightarrow> 'c RPC list" where
  "SendToPlayer E s Message =
     (if WhisperTarget Message = None then []
      else
        (case GetChatComponentForPlayer E s (WhisperTarget Message) of
           None \<Rightarrow> []
         | Some TargetComponent \<Rightarrow> [ClientReceiveMessage TargetComponent Message])
        @ (if Sender Message \<noteq> None
           then (case GetChatComponentForPlayer E s (Sender Message) of
                   None \<Rightarrow> []
                 | Some SenderComponent \<Rightarrow> [ClientReceiveMessage SenderComponent Message])
           else []))"

text \<open>
  \<open>SendToProximity\<close>, lines 273 to 316. An entry is skipped when it is null, when its
  owner is not a player state, or when that player state has no pawn.
\<close>

fun SendToProximity_loop ::
  "('f::{times, linorder}, 'v, 'c) Engine \<Rightarrow> 'v \<Rightarrow> 'f \<Rightarrow> nat option list
     \<Rightarrow> 'c FChatMessage \<Rightarrow> 'c RPC list" where
  "SendToProximity_loop E SenderLocation RadiusSquared [] Message = []"
| "SendToProximity_loop E SenderLocation RadiusSquared (Component # rest) Message =
     (case Component of
        None \<Rightarrow> SendToProximity_loop E SenderLocation RadiusSquared rest Message
      | Some c \<Rightarrow>
          (case GetOwner E c of
             Some (APlayerState PS) \<Rightarrow>
               (case GetPawn E PS of
                  None \<Rightarrow> SendToProximity_loop E SenderLocation RadiusSquared rest Message
                | Some Pawn \<Rightarrow>
                    (if DistSquared E SenderLocation (GetActorLocation E Pawn) \<le> RadiusSquared
                     then ClientReceiveMessage c Message
                          # SendToProximity_loop E SenderLocation RadiusSquared rest Message
                     else SendToProximity_loop E SenderLocation RadiusSquared rest Message))
           | _ \<Rightarrow> SendToProximity_loop E SenderLocation RadiusSquared rest Message))"

definition SendToProximity ::
  "('f::{times, linorder}, 'v, 'c) Engine \<Rightarrow> ('f, 'c) UChatSubsystem \<Rightarrow> 'c FChatMessage
     \<Rightarrow> 'c RPC list" where
  "SendToProximity E s Message =
     (case Sender Message of
        None \<Rightarrow> []
      | Some p \<Rightarrow>
          (case GetPawn E p of
             None \<Rightarrow> []
           | Some SenderPawn \<Rightarrow>
               SendToProximity_loop E (GetActorLocation E SenderPawn)
                 (ProximityChatRadius (ChatSettings s) * ProximityChatRadius (ChatSettings s))
                 (RegisteredComponents s) Message))"

text \<open>\<open>RouteMessage\<close>, lines 187 to 217.\<close>

definition RouteMessage ::
  "('f::{times, linorder}, 'v, 'c) Engine \<Rightarrow> ('f, 'c) UChatSubsystem \<Rightarrow> 'c FChatMessage
     \<Rightarrow> 'c RPC list" where
  "RouteMessage E s Message =
     (case Channel Message of
        Global \<Rightarrow> SendToAllPlayers E s Message
      | System \<Rightarrow> SendToAllPlayers E s Message
      | Team \<Rightarrow> SendToTeam E s Message
      | Whisper \<Rightarrow> SendToPlayer E s Message
      | Proximity \<Rightarrow> SendToProximity E s Message
      | Custom \<Rightarrow> SendToAllPlayers E s Message)"

text \<open>
  \<open>AddToHistory\<close>, lines 336 to 345. The loop removes the element at index 0 while the
  array is longer than \<open>MaxHistorySize\<close>. \<open>TArray::RemoveAt(0)\<close> on an empty array fails
  the engine's range check, which can only happen with a negative \<open>MaxHistorySize\<close>;
  that outcome is \<open>None\<close>.
\<close>

function AddToHistory_loop :: "int \<Rightarrow> 'a list \<Rightarrow> 'a list option" where
  "AddToHistory_loop MaxSize History =
     (if int (length History) > MaxSize
      then (case History of
              [] \<Rightarrow> None
            | x # rest \<Rightarrow> AddToHistory_loop MaxSize rest)
      else Some History)"
  by pat_completeness auto
termination
  by (relation "measure (\<lambda>(MaxSize, History). length History)") auto

declare AddToHistory_loop.simps [simp del]

definition AddToHistory ::
  "('f, 'c) UChatSubsystem \<Rightarrow> 'c FChatMessage \<Rightarrow> ('f, 'c) UChatSubsystem option" where
  "AddToHistory s Message =
     (case AddToHistory_loop (MaxHistorySize (ChatSettings s)) (MessageHistory s @ [Message]) of
        None \<Rightarrow> None
      | Some History \<Rightarrow> Some (s\<lparr>MessageHistory := History\<rparr>))"

text \<open>
  \<open>IsPlayerRateLimited\<close>, lines 347 to 376. It returns the flag, the out parameter and
  the subsystem, whose \<open>PlayerMessageTimes\<close> it updates when the player is not limited.
\<close>

definition IsPlayerRateLimited ::
  "('f::{minus, linorder}, 'v, 'c) Engine \<Rightarrow> ('f, 'c) UChatSubsystem \<Rightarrow> nat option \<Rightarrow> string
     \<Rightarrow> bool \<times> string \<times> ('f, 'c) UChatSubsystem" where
  "IsPlayerRateLimited E s PlayerState OutFailureReason =
     (case PlayerState of
        None \<Rightarrow> (False, OutFailureReason, s)
      | Some p \<Rightarrow>
          (case GetWorld E of
             None \<Rightarrow> (False, OutFailureReason, s)
           | Some World \<Rightarrow>
               (let CurrentTime = TimeSeconds World;
                    Limited =
                      (case PlayerMessageTimes s p of
                         None \<Rightarrow> None
                       | Some LastMessageTime \<Rightarrow>
                           (let TimeSinceLastMessage = CurrentTime - LastMessageTime
                            in if TimeSinceLastMessage < MessageCooldown (ChatSettings s)
                               then Some (''Please wait ''
                                          @ Printf_1f E (MessageCooldown (ChatSettings s)
                                                         - TimeSinceLastMessage)
                                          @ '' seconds before sending another message'')
                               else None))
                in case Limited of
                     Some Reason \<Rightarrow> (True, Reason, s)
                   | None \<Rightarrow>
                       (False, OutFailureReason,
                        s\<lparr>PlayerMessageTimes := (PlayerMessageTimes s)(p \<mapsto> CurrentTime)\<rparr>))))"

text \<open>
  \<open>BroadcastMessage\<close>, lines 33 to 68. The result is the returned flag, the out
  parameter, the subsystem afterwards and the RPCs issued; \<open>None\<close> is the failed range
  check of \<open>AddToHistory\<close>.
\<close>

definition BroadcastMessage ::
  "('f::{minus, times, linorder}, 'v, 'c) Engine \<Rightarrow> ('f, 'c) UChatSubsystem
     \<Rightarrow> 'c FChatMessage \<Rightarrow> string
     \<Rightarrow> (bool \<times> string \<times> ('f, 'c) UChatSubsystem \<times> 'c RPC list) option" where
  "BroadcastMessage E s Message OutFailureReason =
     (case GetWorld E of
        None \<Rightarrow> Some (False, ''Invalid world'', s, [])
      | Some World \<Rightarrow>
          (if \<not> AuthGameMode World
           then Some (False, ''Only server can broadcast messages'', s, [])
           else
             (case ValidateMessage s Message OutFailureReason of
                (False, Reason) \<Rightarrow> Some (False, Reason, s, [])
              | (True, Reason) \<Rightarrow>
                  (case (if Sender Message \<noteq> None
                         then IsPlayerRateLimited E s (Sender Message) Reason
                         else (False, Reason, s)) of
                     (True, Reason', s') \<Rightarrow> Some (False, Reason', s', [])
                   | (False, Reason', s') \<Rightarrow>
                       (case AddToHistory s' Message of
                          None \<Rightarrow> None
                        | Some s'' \<Rightarrow> Some (True, Reason', s'', RouteMessage E s'' Message))))))"

text \<open>
  \<open>BroadcastSystemMessage\<close>, lines 70 to 91. Off the authority it does nothing.
\<close>

definition BroadcastSystemMessage ::
  "('f, 'v, 'c) Engine \<Rightarrow> ('f, 'c) UChatSubsystem \<Rightarrow> string \<Rightarrow> 'c
     \<Rightarrow> (('f, 'c) UChatSubsystem \<times> 'c RPC list) option" where
  "BroadcastSystemMessage E s Content' Color =
     (case GetWorld E of
        None \<Rightarrow> Some (s, [])
      | Some World \<Rightarrow>
          (if \<not> AuthGameMode World then Some (s, [])
           else
             (let SystemMessage =
                    \<lparr>Sender = None, SenderName = ''System'', Content = Content',
                     Channel = System, Timestamp = DateTime_Now E, MessageColor = Color,
                     WhisperTarget = None\<rparr>
              in case AddToHistory s SystemMessage of
                   None \<Rightarrow> None
                 | Some s' \<Rightarrow> Some (s', SendToAllPlayers E s' SystemMessage))))"

text \<open>
  \<open>GetRecentMessages\<close>, lines 93 to 110. The loop copies the elements from
  \<open>StartIndex\<close> to the end.
\<close>

function GetRecentMessages_loop :: "'a list \<Rightarrow> nat \<Rightarrow> 'a list \<Rightarrow> 'a list" where
  "GetRecentMessages_loop History i RecentMessages =
     (if i < length History
      then GetRecentMessages_loop History (Suc i) (RecentMessages @ [History ! i])
      else RecentMessages)"
  by pat_completeness auto
termination
  by (relation "measure (\<lambda>(History, i, RecentMessages). length History - i)") auto

declare GetRecentMessages_loop.simps [simp del]

definition GetRecentMessages ::
  "('f, 'c) UChatSubsystem \<Rightarrow> int \<Rightarrow> 'c FChatMessage list" where
  "GetRecentMessages s Count =
     (if Count \<le> 0 \<or> Count \<ge> int (length (MessageHistory s)) then MessageHistory s
      else
        (let StartIndex = max 0 (int (length (MessageHistory s)) - Count)
         in GetRecentMessages_loop (MessageHistory s) (nat StartIndex) []))"

text \<open>
  \<open>RegisterChatComponent\<close>, \<open>UnregisterChatComponent\<close>, lines 128 to 152.
  \<open>TArray::Remove\<close> removes every entry equal to the component, \<open>TMap::Remove\<close> the
  entry of the key.
\<close>

definition RegisterChatComponent ::
  "('f, 'c) UChatSubsystem \<Rightarrow> nat option \<Rightarrow> ('f, 'c) UChatSubsystem" where
  "RegisterChatComponent s Component =
     (if Component \<noteq> None \<and> Component \<notin> set (RegisteredComponents s)
      then s\<lparr>RegisteredComponents := RegisteredComponents s @ [Component]\<rparr>
      else s)"

definition UnregisterChatComponent ::
  "('f, 'v, 'c) Engine \<Rightarrow> ('f, 'c) UChatSubsystem \<Rightarrow> nat option
     \<Rightarrow> ('f, 'c) UChatSubsystem" where
  "UnregisterChatComponent E s Component =
     (case Component of
        None \<Rightarrow> s
      | Some c \<Rightarrow>
          (let s' = s\<lparr>RegisteredComponents := removeAll (Some c) (RegisteredComponents s)\<rparr>
           in case GetOwner E c of
                Some (APlayerState PS) \<Rightarrow>
                  s'\<lparr>PlayerMessageTimes := (PlayerMessageTimes s')(PS := None)\<rparr>
              | _ \<Rightarrow> s'))"

text \<open>\<open>ClearMessageHistory\<close>, \<open>SetChatSettings\<close>, lines 112 to 126.\<close>

definition ClearMessageHistory :: "('f, 'c) UChatSubsystem \<Rightarrow> ('f, 'c) UChatSubsystem" where
  "ClearMessageHistory s = s\<lparr>MessageHistory := []\<rparr>"

definition SetChatSettings ::
  "('f, 'v, 'c) Engine \<Rightarrow> ('f, 'c) UChatSubsystem \<Rightarrow> 'f FChatSettings
     \<Rightarrow> ('f, 'c) UChatSubsystem" where
  "SetChatSettings E s NewSettings =
     (case GetWorld E of
        None \<Rightarrow> s
      | Some World \<Rightarrow> if \<not> AuthGameMode World then s else s\<lparr>ChatSettings := NewSettings\<rparr>)"

section \<open>UChatComponent (ChatComponent.h, ChatComponent.cpp)\<close>

text \<open>
  The members of a component that the chat logic reads and writes. Its owner is read
  from the engine by the component's address (\<open>this\<close>).
\<close>

record 'f UChatComponent =
  MutedPlayers :: "nat list"
  LastMessageTime :: 'f

text \<open>The convenience constructor of \<open>FChatMessage\<close>, ChatMessage.h lines 73 to 82.\<close>

definition FChatMessage_ctor ::
  "('f, 'v, 'c) Engine \<Rightarrow> nat option \<Rightarrow> string \<Rightarrow> EChatChannel \<Rightarrow> 'c FChatMessage" where
  "FChatMessage_ctor E InSender InContent InChannel =
     \<lparr>Sender = InSender,
      SenderName = (case InSender of Some p \<Rightarrow> GetPlayerName E p | None \<Rightarrow> ''System''),
      Content = InContent, Channel = InChannel, Timestamp = DateTime_Now E,
      MessageColor = White E, WhisperTarget = None\<rparr>"

text \<open>\<open>GetOwningPlayerState\<close>, lines 230 to 233: \<open>Cast<APlayerState>(GetOwner())\<close>.\<close>

definition GetOwningPlayerState :: "('f, 'v, 'c) Engine \<Rightarrow> nat \<Rightarrow> nat option" where
  "GetOwningPlayerState E this =
     (case GetOwner E this of Some (APlayerState p) \<Rightarrow> Some p | _ \<Rightarrow> None)"

text \<open>
  \<open>ValidateMessageLocally\<close>, lines 235 to 272. \<open>Subsystem\<close> is what \<open>GetChatSubsystem()\<close>
  returns on this machine, \<open>None\<close> for null. With a subsystem and a message of
  admissible length the code dereferences \<open>GetWorld()\<close> unchecked: a null world there
  is the result \<open>None\<close>.
\<close>

definition ValidateMessageLocally ::
  "('f::{minus, linorder}, 'v, 'c) Engine \<Rightarrow> ('f, 'c) UChatSubsystem option
     \<Rightarrow> 'f UChatComponent \<Rightarrow> string \<Rightarrow> string
     \<Rightarrow> (bool \<times> string \<times> 'f UChatComponent) option" where
  "ValidateMessageLocally E Subsystem self Content' OutFailureReason =
     (if Content' = [] then Some (False, ''Message cannot be empty'', self)
      else
        (case Subsystem of
           None \<Rightarrow> Some (True, OutFailureReason, self)
         | Some sub \<Rightarrow>
             (let Settings = ChatSettings sub
              in if int (length Content') > MaxMessageLength Settings
                 then Some (False, ''Message too long (max ''
                                   @ Printf_d (MaxMessageLength Settings)
                                   @ '' characters)'', self)
                 else
                   (case GetWorld E of
                      None \<Rightarrow> None
                    | Some World \<Rightarrow>
                        (let CurrentTime = TimeSeconds World;
                             TimeSinceLastMessage = CurrentTime - LastMessageTime self
                         in if TimeSinceLastMessage < MessageCooldown Settings
                            then Some (False, ''Please wait ''
                                         @ Printf_1f E (MessageCooldown Settings
                                                        - TimeSinceLastMessage)
                                         @ '' seconds before sending another message'', self)
                            else Some (True, OutFailureReason,
                                       self\<lparr>LastMessageTime := CurrentTime\<rparr>))))))"

text \<open>
  \<open>SendChatMessage\<close>, \<open>SendWhisper\<close>, \<open>SendProximityMessage\<close>, lines 45 to 118. Each
  returns the component afterwards and the RPCs it issued.
\<close>

definition SendChatMessage ::
  "('f::{minus, linorder}, 'v, 'c) Engine \<Rightarrow> ('f, 'c) UChatSubsystem option \<Rightarrow> nat
     \<Rightarrow> 'f UChatComponent \<Rightarrow> string \<Rightarrow> EChatChannel
     \<Rightarrow> ('f UChatComponent \<times> 'c RPC list) option" where
  "SendChatMessage E Subsystem this self Content' Channel' =
     (if Content' = [] then Some (self, [])
      else
        (case GetOwningPlayerState E this of
           None \<Rightarrow> Some (self, [])
         | Some OwningPS \<Rightarrow>
             (case ValidateMessageLocally E Subsystem self Content' [] of
                None \<Rightarrow> None
              | Some (False, FailureReason, self') \<Rightarrow>
                  Some (self', [ClientNotifyMessageFailed this FailureReason])
              | Some (True, FailureReason, self') \<Rightarrow>
                  Some (self', [ServerSendMessage this Content' Channel' None]))))"

definition SendWhisper ::
  "('f::{minus, linorder}, 'v, 'c) Engine \<Rightarrow> ('f, 'c) UChatSubsystem option \<Rightarrow> nat
     \<Rightarrow> 'f UChatComponent \<Rightarrow> nat option \<Rightarrow> string
     \<Rightarrow> ('f UChatComponent \<times> 'c RPC list) option" where
  "SendWhisper E Subsystem this self TargetPlayer Content' =
     (if TargetPlayer = None \<or> Content' = [] then Some (self, [])
      else
        (case GetOwningPlayerState E this of
           None \<Rightarrow> Some (self, [])
         | Some OwningPS \<Rightarrow>
             (case ValidateMessageLocally E Subsystem self Content' [] of
                None \<Rightarrow> None
              | Some (False, FailureReason, self') \<Rightarrow>
                  Some (self', [ClientNotifyMessageFailed this FailureReason])
              | Some (True, FailureReason, self') \<Rightarrow>
                  Some (self', [ServerSendMessage this Content' Whisper TargetPlayer]))))"

definition SendProximityMessage ::
  "('f::{minus, linorder}, 'v, 'c) Engine \<Rightarrow> ('f, 'c) UChatSubsystem option \<Rightarrow> nat
     \<Rightarrow> 'f UChatComponent \<Rightarrow> string
     \<Rightarrow> ('f UChatComponent \<times> 'c RPC list) option" where
  "SendProximityMessage E Subsystem this self Content' =
     (if Content' = [] then Some (self, [])
      else
        (case GetOwningPlayerState E this of
           None \<Rightarrow> Some (self, [])
         | Some OwningPS \<Rightarrow>
             (case ValidateMessageLocally E Subsystem self Content' [] of
                None \<Rightarrow> None
              | Some (False, FailureReason, self') \<Rightarrow>
                  Some (self', [ClientNotifyMessageFailed this FailureReason])
              | Some (True, FailureReason, self') \<Rightarrow>
                  Some (self', [ServerSendMessage this Content' Proximity None]))))"

text \<open>
  \<open>ServerSendMessage_Implementation\<close>, lines 120 to 146, run on the server with the
  server's subsystem. It returns the subsystem afterwards and the RPCs issued.
\<close>

definition ServerSendMessage_Implementation ::
  "('f::{minus, times, linorder}, 'v, 'c) Engine \<Rightarrow> ('f, 'c) UChatSubsystem option \<Rightarrow> nat
     \<Rightarrow> string \<Rightarrow> EChatChannel \<Rightarrow> nat option
     \<Rightarrow> (('f, 'c) UChatSubsystem option \<times> 'c RPC list) option" where
  "ServerSendMessage_Implementation E Subsystem this Content' Channel' WhisperTarget' =
     (case Subsystem of
        None \<Rightarrow> Some (None, [ClientNotifyMessageFailed this ''Chat subsystem not available''])
      | Some s \<Rightarrow>
          (case GetOwningPlayerState E this of
             None \<Rightarrow> Some (Some s, [ClientNotifyMessageFailed this ''Invalid player state''])
           | Some OwningPS \<Rightarrow>
               (let Message = (FChatMessage_ctor E (Some OwningPS) Content' Channel')
                                \<lparr>WhisperTarget := WhisperTarget'\<rparr>
                in case BroadcastMessage E s Message [] of
                     None \<Rightarrow> None
                   | Some (True, FailureReason, s', rpcs) \<Rightarrow> Some (Some s', rpcs)
                   | Some (False, FailureReason, s', rpcs) \<Rightarrow>
                       Some (Some s', rpcs @ [ClientNotifyMessageFailed this FailureReason]))))"

text \<open>\<open>ServerSendMessage_Validate\<close>, lines 148 to 152.\<close>

definition ServerSendMessage_Validate :: "string \<Rightarrow> EChatChannel \<Rightarrow> nat option \<Rightarrow> bool" where
  "ServerSendMessage_Validate Content' Channel' WhisperTarget' =
     (Content' \<noteq> [] \<and> int (length Content') \<le> 1024)"

text \<open>
  Modelled from the spec: the dispatch of the server RPC, which the engine generates
  from the declaration \<open>UFUNCTION(Server, Reliable, WithValidation)\<close> of
  \<open>ServerSendMessage\<close> and which is not among the sources. The spec has the server
  enforce the hard cap on a submission before anything else; the generated code calls
  \<open>ServerSendMessage_Validate\<close> and runs \<open>ServerSendMessage_Implementation\<close> only when
  it returned true.
\<close>

datatype ('f, 'c) ServerRPCResult =
  ValidateFailed
  | Executed "(('f, 'c) UChatSubsystem option \<times> 'c RPC list) option"

definition execServerSendMessage ::
  "('f::{minus, times, linorder}, 'v, 'c) Engine \<Rightarrow> ('f, 'c) UChatSubsystem option \<Rightarrow> nat
     \<Rightarrow> string \<Rightarrow> EChatChannel \<Rightarrow> nat option \<Rightarrow> ('f, 'c) ServerRPCResult" where
  "execServerSendMessage E Subsystem this Content' Channel' WhisperTarget' =
     (if \<not> ServerSendMessage_Validate Content' Channel' WhisperTarget' then ValidateFailed
      else Executed (ServerSendMessage_Implementation E Subsystem this
                       Content' Channel' WhisperTarget'))"

text \<open>
  \<open>IsPlayerMuted\<close>, \<open>MutePlayer\<close>, \<open>UnmutePlayer\<close>, \<open>ClearMutedPlayers\<close>, lines 174 to 205.
\<close>

definition IsPlayerMuted :: "'f UChatComponent \<Rightarrow> nat option \<Rightarrow> bool" where
  "IsPlayerMuted self Player =
     (case Player of None \<Rightarrow> False | Some p \<Rightarrow> p \<in> set (MutedPlayers self))"

definition MutePlayer ::
  "('f, 'v, 'c) Engine \<Rightarrow> nat \<Rightarrow> 'f UChatComponent \<Rightarrow> nat option \<Rightarrow> 'f UChatComponent" where
  "MutePlayer E this self PlayerToMute =
     (case PlayerToMute of
        None \<Rightarrow> self
      | Some p \<Rightarrow>
          (if PlayerToMute = GetOwningPlayerState E this then self
           else if p \<notin> set (MutedPlayers self)
           then self\<lparr>MutedPlayers := MutedPlayers self @ [p]\<rparr>
           else self))"

definition UnmutePlayer :: "'f UChatComponent \<Rightarrow> nat option \<Rightarrow> 'f UChatComponent" where
  "UnmutePlayer self PlayerToUnmute =
     (case PlayerToUnmute of
        None \<Rightarrow> self
      | Some p \<Rightarrow> self\<lparr>MutedPlayers := removeAll p (MutedPlayers self)\<rparr>)"

definition ClearMutedPlayers :: "'f UChatComponent \<Rightarrow> 'f UChatComponent" where
  "ClearMutedPlayers self = self\<lparr>MutedPlayers := []\<rparr>"

text \<open>
  \<open>ClientReceiveMessage_Implementation\<close>, lines 154 to 164. The result is the list of
  messages broadcast on the delegate \<open>OnChatMessageReceived\<close>: none or one.
\<close>

definition ClientReceiveMessage_Implementation ::
  "'f UChatComponent \<Rightarrow> 'c FChatMessage \<Rightarrow> 'c FChatMessage list" where
  "ClientReceiveMessage_Implementation self Message =
     (if Sender Message \<noteq> None \<and> IsPlayerMuted self (Sender Message) then []
      else [Message])"

text \<open>
  The client RPCs of a list, run where they arrive: \<open>OnChatMessageReceived H rpcs c\<close> is
  what the delegate of the component at address \<open>c\<close> broadcasts when every
  \<open>ClientReceiveMessage\<close> of \<open>rpcs\<close> invoked on \<open>c\<close> runs its implementation there,
  \<open>H\<close> giving the members of each component.
\<close>

fun OnChatMessageReceived ::
  "(nat \<Rightarrow> 'f UChatComponent) \<Rightarrow> 'c RPC list \<Rightarrow> nat \<Rightarrow> 'c FChatMessage list" where
  "OnChatMessageReceived H [] c = []"
| "OnChatMessageReceived H (ClientReceiveMessage c' Message # rest) c =
     (if c' = c then ClientReceiveMessage_Implementation (H c) Message else [])
     @ OnChatMessageReceived H rest c"
| "OnChatMessageReceived H (ClientNotifyMessageFailed c' Reason # rest) c =
     OnChatMessageReceived H rest c"
| "OnChatMessageReceived H (ServerSendMessage c' Content' Channel' Target # rest) c =
     OnChatMessageReceived H rest c"

section \<open>Runs and example configurations\<close>

text \<open>
  A run of the authority: the messages of the list are submitted to \<open>BroadcastMessage\<close>
  one after the other, each with the engine as it is at that moment. The result is the
  subsystem at the end and the accepted messages in the order of their submission.
\<close>

fun Submissions ::
  "(('f::{minus, times, linorder}, 'v, 'c) Engine \<times> 'c FChatMessage) list
     \<Rightarrow> ('f, 'c) UChatSubsystem
     \<Rightarrow> (('f, 'c) UChatSubsystem \<times> 'c FChatMessage list) option" where
  "Submissions [] s = Some (s, [])"
| "Submissions ((E, Message) # rest) s =
     (case BroadcastMessage E s Message [] of
        None \<Rightarrow> None
      | Some (ok, Reason, s', rpcs) \<Rightarrow>
          (case Submissions rest s' of
             None \<Rightarrow> None
           | Some (s'', accepted) \<Rightarrow> Some (s'', if ok then Message # accepted else accepted)))"

text \<open>
  An example configuration, with rational numbers for the floats, triples for the
  locations and quadruples for the colours. Five components are registered, a null
  entry among them: components 1, 2, 3 and 5 belong to the player states 11, 12, 13
  and 15, component 4 belongs to an actor that is no player state. The pawn of player
  11 stands at the origin, that of player 12 at distance 500, that of player 13 at
  distance 2000, and player 15 has no pawn. \<open>Example_Printf_1f\<close> prints one decimal
  and rounds a tie upwards, which the C library need not do: the examples use it away
  from ties only.
\<close>

definition Example_DistSquared :: "rat \<times> rat \<times> rat \<Rightarrow> rat \<times> rat \<times> rat \<Rightarrow> rat" where
  "Example_DistSquared V1 V2 =
     (case V1 of (x1, y1, z1) \<Rightarrow> case V2 of (x2, y2, z2) \<Rightarrow>
        (x2 - x1) * (x2 - x1) + (y2 - y1) * (y2 - y1) + (z2 - z1) * (z2 - z1))"

definition Example_Printf_1f :: "rat \<Rightarrow> string" where
  "Example_Printf_1f x =
     (let tenths = \<lfloor>\<bar>x\<bar> * 10 + 1 / 2\<rfloor>
      in (if x < 0 then ''-'' else [])
         @ digits (nat (tenths div 10)) @ ''.'' @ digits (nat (tenths mod 10)))"

definition Example_Engine ::
  "rat \<Rightarrow> (rat, rat \<times> rat \<times> rat, rat \<times> rat \<times> rat \<times> rat) Engine" where
  "Example_Engine t =
     \<lparr>GetWorld = Some \<lparr>AuthGameMode = True, TimeSeconds = t\<rparr>,
      GetOwner = (\<lambda>c. if c = 1 then Some (APlayerState 11)
                      else if c = 2 then Some (APlayerState 12)
                      else if c = 3 then Some (APlayerState 13)
                      else if c = 4 then Some (AOtherActor 14)
                      else if c = 5 then Some (APlayerState 15)
                      else None),
      GetPawn = (\<lambda>p. if p = 11 then Some 21
                     else if p = 12 then Some 22
                     else if p = 13 then Some 23
                     else None),
      GetActorLocation = (\<lambda>a. if a = 21 then (0, 0, 0)
                              else if a = 22 then (300, 400, 0)
                              else (2000, 0, 0)),
      GetPlayerName = (\<lambda>p. if p = 11 then ''Ann'' else if p = 12 then ''Bob'' else ''Eve''),
      DateTime_Now = 0,
      DistSquared = Example_DistSquared,
      Printf_1f = Example_Printf_1f,
      White = (1, 1, 1, 1)\<rparr>"

definition Example_Settings :: "rat FChatSettings" where
  "Example_Settings =
     \<lparr>MaxMessageLength = 10, MessageCooldown = 1 / 2, MaxHistorySize = 2,
      bEnableProfanityFilter = False, ProximityChatRadius = 500,
      bAllowEmptyMessages = False\<rparr>"

definition Example_Subsystem :: "(rat, rat \<times> rat \<times> rat \<times> rat) UChatSubsystem" where
  "Example_Subsystem =
     \<lparr>ChatSettings = Example_Settings, MessageHistory = [],
      RegisteredComponents = [Some 1, Some 2, Some 3, None, Some 4, Some 5],
      PlayerMessageTimes = Map.empty\<rparr>"

definition Example_Message ::
  "nat option \<Rightarrow> string \<Rightarrow> EChatChannel \<Rightarrow> nat option
     \<Rightarrow> (rat \<times> rat \<times> rat \<times> rat) FChatMessage" where
  "Example_Message InSender InContent InChannel Target =
     (FChatMessage_ctor (Example_Engine 0) InSender InContent InChannel)
       \<lparr>WhisperTarget := Target\<rparr>"

text \<open>
  The members of the example components: component 2 has muted player 11, nobody else
  has muted anyone, and no component has sent anything since time 0.
\<close>

definition Example_Components :: "nat \<Rightarrow> rat UChatComponent" where
  "Example_Components c =
     \<lparr>MutedPlayers = (if c = 2 then [11] else []), LastMessageTime = 0\<rparr>"

section \<open>Auxiliary facts\<close>

lemma ValidateMessage_True:
  "ValidateMessage s m out = (True, r) \<Longrightarrow> r = out"
  by (auto simp: ValidateMessage_def split: if_splits)

lemma AddToHistory_loop_drop:
  "0 \<le> mx \<Longrightarrow> AddToHistory_loop mx h = Some (drop (length h - nat mx) h)"
proof (induction mx h rule: AddToHistory_loop.induct)
  case (1 MaxSize History)
  show ?case
  proof (cases History)
    case Nil
    with 1(2) show ?thesis by (simp add: AddToHistory_loop.simps)
  next
    case (Cons x rest)
    show ?thesis
    proof (cases "int (length History) > MaxSize")
      case True
      with Cons 1 have "AddToHistory_loop MaxSize History
                        = Some (drop (length rest - nat MaxSize) rest)"
        by (simp add: AddToHistory_loop.simps[of MaxSize "x # rest"])
      moreover from True Cons 1(2)
      have "length History - nat MaxSize = Suc (length rest - nat MaxSize)"
        by auto
      ultimately show ?thesis using Cons by simp
    next
      case False
      then have "length History - nat MaxSize = 0" using 1(2) by auto
      with False show ?thesis by (simp add: AddToHistory_loop.simps[of MaxSize History])
    qed
  qed
qed

lemma AddToHistory_loop_neg: "mx < 0 \<Longrightarrow> AddToHistory_loop mx h = None"
  by (induction mx h rule: AddToHistory_loop.induct)
     (subst AddToHistory_loop.simps, simp split: list.splits)

lemma AddToHistory_Some:
  assumes "0 \<le> MaxHistorySize (ChatSettings s)"
  shows "AddToHistory s m =
           Some (s\<lparr>MessageHistory :=
                     drop (length (MessageHistory s @ [m]) - nat (MaxHistorySize (ChatSettings s)))
                          (MessageHistory s @ [m])\<rparr>)"
  using assms by (simp add: AddToHistory_def AddToHistory_loop_drop del: length_append)

lemma GetRecentMessages_loop_drop:
  "GetRecentMessages_loop h i acc = acc @ drop i h"
proof (induction h i acc rule: GetRecentMessages_loop.induct)
  case (1 History i RecentMessages)
  show ?case
  proof (cases "i < length History")
    case True
    with 1 show ?thesis
      by (subst GetRecentMessages_loop.simps) (simp add: Cons_nth_drop_Suc)
  next
    case False
    then show ?thesis by (subst GetRecentMessages_loop.simps) simp
  qed
qed

lemma GetRecentMessages_eq:
  "GetRecentMessages s Count =
     (if Count \<le> 0 then MessageHistory s
      else drop (length (MessageHistory s) - nat Count) (MessageHistory s))"
  by (auto simp: GetRecentMessages_def GetRecentMessages_loop_drop Let_def
                 nat_diff_distrib' max_def)

lemma IsPlayerRateLimited_frame:
  "IsPlayerRateLimited E s p out = (b, r, s') \<Longrightarrow>
     ChatSettings s' = ChatSettings s \<and> MessageHistory s' = MessageHistory s
     \<and> RegisteredComponents s' = RegisteredComponents s \<and> (b \<longrightarrow> s' = s)"
  by (auto simp: IsPlayerRateLimited_def Let_def split: option.splits if_splits)

lemma BroadcastMessage_rejected:
  "BroadcastMessage E s m out = Some (False, r, s', rpcs) \<Longrightarrow> s' = s \<and> rpcs = []"
  by (auto simp: BroadcastMessage_def split: option.splits if_splits prod.splits bool.splits
           dest: IsPlayerRateLimited_frame)

lemma BroadcastMessage_accepted:
  "BroadcastMessage E s m out = Some (True, r, s', rpcs) \<Longrightarrow>
     (\<exists>s1. AddToHistory s1 m = Some s' \<and> ChatSettings s1 = ChatSettings s
           \<and> MessageHistory s1 = MessageHistory s
           \<and> RegisteredComponents s1 = RegisteredComponents s)
     \<and> rpcs = RouteMessage E s' m \<and> ValidateMessage s m out = (True, out)"
  by (auto simp: BroadcastMessage_def split: option.splits if_splits prod.splits bool.splits
           dest: IsPlayerRateLimited_frame ValidateMessage_True)

lemma AddToHistory_frame:
  "AddToHistory s m = Some s' \<Longrightarrow>
     RegisteredComponents s' = RegisteredComponents s \<and> ChatSettings s' = ChatSettings s"
  by (auto simp: AddToHistory_def split: option.splits)

lemma BroadcastMessage_routes:
  assumes "BroadcastMessage E s m out = Some (True, r, s', rpcs)"
  shows "rpcs = RouteMessage E s' m \<and> RegisteredComponents s' = RegisteredComponents s
         \<and> ChatSettings s' = ChatSettings s \<and> ValidateMessage s m out = (True, out)"
  using BroadcastMessage_accepted[OF assms] by (auto dest: AddToHistory_frame)

lemma BroadcastMessage_total:
  assumes "0 \<le> MaxHistorySize (ChatSettings s)"
  shows "\<exists>ok r s' rpcs. BroadcastMessage E s m out = Some (ok, r, s', rpcs)
           \<and> ChatSettings s' = ChatSettings s"
proof (cases "BroadcastMessage E s m out")
  case None
  then have False using assms
    by (auto simp: BroadcastMessage_def AddToHistory_Some
             split: option.splits if_splits prod.splits bool.splits
             dest: IsPlayerRateLimited_frame)
  then show ?thesis ..
next
  case (Some res)
  obtain ok r s' rpcs where res: "res = (ok, r, s', rpcs)" by (cases res)
  show ?thesis
  proof (cases ok)
    case True
    with Some res BroadcastMessage_routes[of E s m out r s' rpcs] show ?thesis by auto
  next
    case False
    with Some res BroadcastMessage_rejected[of E s m out r s' rpcs] show ?thesis by auto
  qed
qed

lemma Submissions_total:
  "0 \<le> MaxHistorySize (ChatSettings s) \<Longrightarrow>
     \<exists>s2 accepted. Submissions subs s = Some (s2, accepted)"
proof (induction subs arbitrary: s)
  case Nil
  then show ?case by simp
next
  case (Cons a subs)
  obtain E m where a: "a = (E, m)" by (cases a)
  from BroadcastMessage_total[OF Cons.prems, of E m "[]"] obtain ok r s' rpcs where
    b: "BroadcastMessage E s m [] = Some (ok, r, s', rpcs)" and
    c: "ChatSettings s' = ChatSettings s" by blast
  from Cons.prems c have "0 \<le> MaxHistorySize (ChatSettings s')" by simp
  from Cons.IH[OF this] obtain s2 acc where "Submissions subs s' = Some (s2, acc)" by blast
  with a b show ?case by simp
qed

lemma drop_tail_append:
  "drop (length (drop (length xs - n) xs @ ys) - n) (drop (length xs - n) xs @ ys)
   = drop (length (xs @ ys) - n) (xs @ ys)"
proof (cases "n \<le> length xs")
  case True
  then have "length xs + length ys - (length xs - n + n) + (length xs - n)
             = length xs + length ys - n" by simp
  with True show ?thesis by (simp add: drop_append)
next
  case False
  then show ?thesis by simp
qed

lemma Submissions_history:
  assumes "Submissions subs s = Some (s', accepted)" and "0 \<le> MaxHistorySize (ChatSettings s)"
  shows "ChatSettings s' = ChatSettings s
         \<and> MessageHistory s' =
             (if accepted = [] then MessageHistory s
              else drop (length (MessageHistory s @ accepted)
                         - nat (MaxHistorySize (ChatSettings s)))
                        (MessageHistory s @ accepted))"
  using assms
proof (induction subs arbitrary: s accepted)
  case Nil
  then show ?case by simp
next
  case (Cons a subs)
  obtain E m where a: "a = (E, m)" by (cases a)
  from Cons.prems(1) a obtain ok r s1 rpcs acc1 where
    b: "BroadcastMessage E s m [] = Some (ok, r, s1, rpcs)" and
    r: "Submissions subs s1 = Some (s', acc1)" and
    acc: "accepted = (if ok then m # acc1 else acc1)"
    by (auto split: option.splits prod.splits)
  show ?case
  proof (cases ok)
    case False
    with b have "s1 = s" by (auto dest: BroadcastMessage_rejected)
    with Cons.IH[OF r[unfolded this]] Cons.prems(2) acc False show ?thesis by simp
  next
    case True
    with b obtain s0 where s0: "AddToHistory s0 m = Some s1" "ChatSettings s0 = ChatSettings s"
      "MessageHistory s0 = MessageHistory s"
      by (auto dest: BroadcastMessage_accepted)
    let ?mx = "nat (MaxHistorySize (ChatSettings s))"
    from s0 Cons.prems(2) have s1: "ChatSettings s1 = ChatSettings s"
      "MessageHistory s1 = drop (length (MessageHistory s @ [m]) - ?mx) (MessageHistory s @ [m])"
      by (auto simp: AddToHistory_Some simp del: length_append)
    from Cons.IH[OF r] s1 Cons.prems(2) have
      ih: "ChatSettings s' = ChatSettings s"
          "MessageHistory s' = (if acc1 = [] then MessageHistory s1
              else drop (length (MessageHistory s1 @ acc1) - ?mx) (MessageHistory s1 @ acc1))"
      by simp_all
    show ?thesis
    proof (cases "acc1 = []")
      case True
      with ih s1 acc \<open>ok\<close> show ?thesis by simp
    next
      case False
      from drop_tail_append[of "MessageHistory s @ [m]" ?mx acc1]
      show ?thesis using ih s1 acc \<open>ok\<close> False by simp
    qed
  qed
qed

lemmas ex_defs = Example_Engine_def Example_Subsystem_def Example_Message_def
  Example_Settings_def FChatMessage_ctor_def

lemmas eval_defs = BroadcastMessage_def ValidateMessage_def IsPlayerRateLimited_def
  AddToHistory_Some RouteMessage_def SendToAllPlayers_def SendToPlayer_def SendToProximity_def
  SendToTeam_def GetChatComponentForPlayer_def

lemma Printf_d_10: "Printf_d 10 = ''10''"
  by code_simp

section \<open>Validation\<close>

text \<open>
  Claim C1. \<open>ValidateMessage\<close> applies four checks in this order, the first failure
  giving the reason: empty content while empty messages are not allowed; content longer
  than \<open>MaxMessageLength\<close>, the reason naming that maximum; no sender on a channel
  other than System; no target on the Whisper channel. A message that fails none of
  them passes, with the out parameter untouched. On the authority \<open>BroadcastMessage\<close>
  rejects a message that fails validation with that reason, and changes and sends
  nothing.
\<close>

theorem C1_validation_order:
  "(Content m = [] \<and> \<not> bAllowEmptyMessages (ChatSettings s) \<longrightarrow>
      ValidateMessage s m out = (False, ''Message content is empty''))
   \<and> (\<not> (Content m = [] \<and> \<not> bAllowEmptyMessages (ChatSettings s))
        \<and> int (length (Content m)) > MaxMessageLength (ChatSettings s) \<longrightarrow>
        ValidateMessage s m out
          = (False, ''Message too long (max '' @ Printf_d (MaxMessageLength (ChatSettings s))
                    @ '' characters)''))
   \<and> (\<not> (Content m = [] \<and> \<not> bAllowEmptyMessages (ChatSettings s))
        \<and> \<not> int (length (Content m)) > MaxMessageLength (ChatSettings s)
        \<and> Channel m \<noteq> System \<and> Sender m = None \<longrightarrow>
        ValidateMessage s m out = (False, ''Invalid sender''))
   \<and> (\<not> (Content m = [] \<and> \<not> bAllowEmptyMessages (ChatSettings s))
        \<and> \<not> int (length (Content m)) > MaxMessageLength (ChatSettings s)
        \<and> \<not> (Channel m \<noteq> System \<and> Sender m = None)
        \<and> Channel m = Whisper \<and> WhisperTarget m = None \<longrightarrow>
        ValidateMessage s m out = (False, ''Whisper requires a target player''))
   \<and> (\<not> (Content m = [] \<and> \<not> bAllowEmptyMessages (ChatSettings s))
        \<and> \<not> int (length (Content m)) > MaxMessageLength (ChatSettings s)
        \<and> \<not> (Channel m \<noteq> System \<and> Sender m = None)
        \<and> \<not> (Channel m = Whisper \<and> WhisperTarget m = None) \<longrightarrow>
        ValidateMessage s m out = (True, out))
   \<and> (GetWorld E = Some w \<and> AuthGameMode w \<and> ValidateMessage s m out = (False, r) \<longrightarrow>
        BroadcastMessage E s m out = Some (False, r, s, []))"
  by (simp add: ValidateMessage_def BroadcastMessage_def)

text \<open>
  The five cases on the example subsystem, whose \<open>MaxMessageLength\<close> is 10, among them
  the scenario of an 11-character content.
\<close>

theorem C1_validation_order_witness:
  "ValidateMessage Example_Subsystem (Example_Message None [] Whisper None) []
     = (False, ''Message content is empty'')
   \<and> ValidateMessage Example_Subsystem (Example_Message None ''hello world'' Whisper None) []
     = (False, ''Message too long (max 10 characters)'')
   \<and> ValidateMessage Example_Subsystem (Example_Message None ''hello'' Whisper None) []
     = (False, ''Invalid sender'')
   \<and> ValidateMessage Example_Subsystem (Example_Message (Some 11) ''hello'' Whisper None) []
     = (False, ''Whisper requires a target player'')
   \<and> ValidateMessage Example_Subsystem (Example_Message (Some 11) ''hello'' Whisper (Some 12)) []
     = (True, [])
   \<and> BroadcastMessage (Example_Engine 0) Example_Subsystem
        (Example_Message (Some 11) ''hello world'' Global None) []
     = Some (False, ''Message too long (max 10 characters)'', Example_Subsystem, [])"
proof -
  let ?s = Example_Subsystem
  let ?E = "Example_Engine 0"
  let ?w = "\<lparr>AuthGameMode = True, TimeSeconds = 0::rat\<rparr>"
  note C = C1_validation_order[where s = ?s and out = "[]" and E = ?E and w = ?w]
  have "ValidateMessage ?s (Example_Message None [] Whisper None) []
          = (False, ''Message content is empty'')"
    using C[of "Example_Message None [] Whisper None"] by (simp add: ex_defs)
  moreover
  have "ValidateMessage ?s (Example_Message None ''hello world'' Whisper None) []
          = (False, ''Message too long (max 10 characters)'')"
    using C[of "Example_Message None ''hello world'' Whisper None"]
    by (simp add: ex_defs Printf_d_10)
  moreover
  have "ValidateMessage ?s (Example_Message None ''hello'' Whisper None) []
          = (False, ''Invalid sender'')"
    using C[of "Example_Message None ''hello'' Whisper None"] by (simp add: ex_defs)
  moreover
  have "ValidateMessage ?s (Example_Message (Some 11) ''hello'' Whisper None) []
          = (False, ''Whisper requires a target player'')"
    using C[of "Example_Message (Some 11) ''hello'' Whisper None"] by (simp add: ex_defs)
  moreover
  have "ValidateMessage ?s (Example_Message (Some 11) ''hello'' Whisper (Some 12)) []
          = (True, [])"
    using C[of "Example_Message (Some 11) ''hello'' Whisper (Some 12)"] by (simp add: ex_defs)
  moreover
  have v: "ValidateMessage ?s (Example_Message (Some 11) ''hello world'' Global None) []
          = (False, ''Message too long (max 10 characters)'')"
    using C[of "Example_Message (Some 11) ''hello world'' Global None"]
    by (simp add: ex_defs Printf_d_10)
  have "BroadcastMessage ?E ?s (Example_Message (Some 11) ''hello world'' Global None) []
          = Some (False, ''Message too long (max 10 characters)'', ?s, [])"
    using C[of "Example_Message (Some 11) ''hello world'' Global None"
               "''Message too long (max 10 characters)''"] v
    by (simp add: Example_Engine_def)
  ultimately show ?thesis by blast
qed

section \<open>History\<close>

text \<open>
  Claim C3. With a \<open>MaxHistorySize\<close> that is not negative, \<open>AddToHistory\<close> returns, the
  history afterwards is no longer than \<open>MaxHistorySize\<close>, and it is the old history
  with the message appended and the oldest entries dropped from the front. After a
  run in which more than \<open>MaxHistorySize\<close> submissions were accepted,
  \<open>GetRecentMessages(0)\<close> is the last \<open>MaxHistorySize\<close> accepted messages, in the
  order of their submission; and every run returns.
\<close>

theorem C3_history_bounded_fifo:
  "(0 \<le> MaxHistorySize (ChatSettings s) \<longrightarrow>
      (\<exists>s'. AddToHistory s m = Some s'
            \<and> int (length (MessageHistory s')) \<le> MaxHistorySize (ChatSettings s')
            \<and> MessageHistory s' =
                drop (length (MessageHistory s @ [m]) - nat (MaxHistorySize (ChatSettings s)))
                     (MessageHistory s @ [m])))
   \<and> (0 \<le> MaxHistorySize (ChatSettings s)
        \<and> Submissions subs s = Some (s2, accepted)
        \<and> int (length accepted) > MaxHistorySize (ChatSettings s) \<longrightarrow>
        GetRecentMessages s2 0
          = drop (length accepted - nat (MaxHistorySize (ChatSettings s))) accepted
        \<and> int (length (GetRecentMessages s2 0)) = MaxHistorySize (ChatSettings s))
   \<and> (0 \<le> MaxHistorySize (ChatSettings s) \<longrightarrow>
        (\<exists>s3 accepted'. Submissions subs s = Some (s3, accepted')))"
proof (intro conjI impI)
  assume "0 \<le> MaxHistorySize (ChatSettings s)"
  then show "\<exists>s'. AddToHistory s m = Some s'
            \<and> int (length (MessageHistory s')) \<le> MaxHistorySize (ChatSettings s')
            \<and> MessageHistory s' =
                drop (length (MessageHistory s @ [m]) - nat (MaxHistorySize (ChatSettings s)))
                     (MessageHistory s @ [m])"
    by (auto simp: AddToHistory_Some)
next
  assume a: "0 \<le> MaxHistorySize (ChatSettings s)
        \<and> Submissions subs s = Some (s2, accepted)
        \<and> int (length accepted) > MaxHistorySize (ChatSettings s)"
  then have ne: "accepted \<noteq> []" by auto
  from a Submissions_history[of subs s s2 accepted] ne
  have h: "MessageHistory s2 = drop (length (MessageHistory s @ accepted)
                         - nat (MaxHistorySize (ChatSettings s)))
                        (MessageHistory s @ accepted)" by simp
  from a have "length (MessageHistory s @ accepted) - nat (MaxHistorySize (ChatSettings s))
               = length (MessageHistory s) + (length accepted - nat (MaxHistorySize (ChatSettings s)))"
    by auto
  with h have h2: "MessageHistory s2
                   = drop (length accepted - nat (MaxHistorySize (ChatSettings s))) accepted"
    by (simp add: drop_append)
  then show "GetRecentMessages s2 0
          = drop (length accepted - nat (MaxHistorySize (ChatSettings s))) accepted"
    by (simp add: GetRecentMessages_eq)
  from h2 a show "int (length (GetRecentMessages s2 0)) = MaxHistorySize (ChatSettings s)"
    by (auto simp: GetRecentMessages_eq)
next
  assume "0 \<le> MaxHistorySize (ChatSettings s)"
  then show "\<exists>s3 accepted'. Submissions subs s = Some (s3, accepted')"
    by (rule Submissions_total)
qed

text \<open>Three accepted submissions with \<open>MaxHistorySize = 2\<close>: the last two remain.\<close>

theorem C3_history_bounded_fifo_witness:
  "\<exists>s2. Submissions
         [(Example_Engine 0, Example_Message (Some 11) ''one'' Global None),
          (Example_Engine 1, Example_Message (Some 11) ''two'' Global None),
          (Example_Engine 2, Example_Message (Some 11) ''three'' Global None)]
         Example_Subsystem
       = Some (s2, [Example_Message (Some 11) ''one'' Global None,
                    Example_Message (Some 11) ''two'' Global None,
                    Example_Message (Some 11) ''three'' Global None])
     \<and> GetRecentMessages s2 0 = [Example_Message (Some 11) ''two'' Global None,
                    Example_Message (Some 11) ''three'' Global None]"
proof -
  let ?subs = "[(Example_Engine 0, Example_Message (Some 11) ''one'' Global None),
          (Example_Engine 1, Example_Message (Some 11) ''two'' Global None),
          (Example_Engine 2, Example_Message (Some 11) ''three'' Global None)]"
  let ?acc = "[Example_Message (Some 11) ''one'' Global None,
                    Example_Message (Some 11) ''two'' Global None,
                    Example_Message (Some 11) ''three'' Global None]"
  have "\<exists>s2. Submissions ?subs Example_Subsystem = Some (s2, ?acc)"
    by (simp add: ex_defs BroadcastMessage_def ValidateMessage_def IsPlayerRateLimited_def
                  AddToHistory_Some RouteMessage_def SendToAllPlayers_def)
  then obtain s2 where s2: "Submissions ?subs Example_Subsystem = Some (s2, ?acc)" by blast
  have mx: "MaxHistorySize (ChatSettings Example_Subsystem) = 2"
    by (simp add: Example_Subsystem_def Example_Settings_def)
  from C3_history_bounded_fifo[of Example_Subsystem "Example_Message (Some 11) ''one'' Global None" ?subs s2 ?acc] s2 mx
  have "GetRecentMessages s2 0 = drop 1 ?acc" by simp
  with s2 show ?thesis by simp
qed

text \<open>
  Claim C6. For a positive \<open>Count\<close>, \<open>GetRecentMessages\<close> returns the last
  \<open>min Count n\<close> messages of the history, \<open>n\<close> being its length, in the order of the
  history; for \<open>Count \<le> 0\<close> or \<open>Count \<ge> n\<close> it returns the whole history.
\<close>

theorem C6_recent_messages:
  "(0 < Count \<longrightarrow>
      GetRecentMessages s Count
        = drop (length (MessageHistory s) - nat (min Count (int (length (MessageHistory s)))))
               (MessageHistory s)
      \<and> int (length (GetRecentMessages s Count)) = min Count (int (length (MessageHistory s))))
   \<and> (Count \<le> 0 \<or> Count \<ge> int (length (MessageHistory s)) \<longrightarrow>
        GetRecentMessages s Count = MessageHistory s)"
  by (auto simp: GetRecentMessages_eq min_def)

theorem C6_recent_messages_witness:
  "GetRecentMessages (Example_Subsystem\<lparr>MessageHistory :=
       [Example_Message (Some 11) ''one'' Global None,
        Example_Message (Some 12) ''two'' Global None,
        Example_Message (Some 13) ''three'' Global None]\<rparr>) 2
     = [Example_Message (Some 12) ''two'' Global None,
        Example_Message (Some 13) ''three'' Global None]
   \<and> GetRecentMessages (Example_Subsystem\<lparr>MessageHistory :=
       [Example_Message (Some 11) ''one'' Global None,
        Example_Message (Some 12) ''two'' Global None,
        Example_Message (Some 13) ''three'' Global None]\<rparr>) 0
     = [Example_Message (Some 11) ''one'' Global None,
        Example_Message (Some 12) ''two'' Global None,
        Example_Message (Some 13) ''three'' Global None]
   \<and> GetRecentMessages (Example_Subsystem\<lparr>MessageHistory :=
       [Example_Message (Some 11) ''one'' Global None,
        Example_Message (Some 12) ''two'' Global None,
        Example_Message (Some 13) ''three'' Global None]\<rparr>) 7
     = [Example_Message (Some 11) ''one'' Global None,
        Example_Message (Some 12) ''two'' Global None,
        Example_Message (Some 13) ''three'' Global None]"
proof -
  let ?h = "[Example_Message (Some 11) ''one'' Global None,
        Example_Message (Some 12) ''two'' Global None,
        Example_Message (Some 13) ''three'' Global None]"
  let ?s = "Example_Subsystem\<lparr>MessageHistory := ?h\<rparr>"
  have "(0::int) < 2" by simp
  with C6_recent_messages[of 2 ?s] have a: "GetRecentMessages ?s 2 = drop 1 ?h" by simp
  have "(0::int) \<le> 0 \<or> 0 \<ge> int (length (MessageHistory ?s))" by simp
  with C6_recent_messages[of 0 ?s] have b: "GetRecentMessages ?s 0 = ?h" by simp
  have "(7::int) \<le> 0 \<or> 7 \<ge> int (length (MessageHistory ?s))" by simp
  with C6_recent_messages[of 7 ?s] have c: "GetRecentMessages ?s 7 = ?h" by simp
  from a b c show ?thesis by simp
qed

section \<open>Rate limiting\<close>

lemma ValidateMessage_settings:
  "ChatSettings s' = ChatSettings s \<Longrightarrow> ValidateMessage s' m out = ValidateMessage s m out"
  by (simp add: ValidateMessage_def)

lemma BroadcastMessage_limited:
  assumes "GetWorld E = Some w" "AuthGameMode w" "ValidateMessage s m out = (True, out)"
    and "Sender m = Some p" "PlayerMessageTimes s p = Some t0"
    and "TimeSeconds w - t0 < MessageCooldown (ChatSettings s)"
  shows "BroadcastMessage E s m out
         = Some (False,
                 ''Please wait ''
                 @ Printf_1f E (MessageCooldown (ChatSettings s) - (TimeSeconds w - t0))
                 @ '' seconds before sending another message'', s, [])"
  using assms by (simp add: BroadcastMessage_def IsPlayerRateLimited_def Let_def)

lemma BroadcastMessage_not_limited:
  assumes "GetWorld E = Some w" "AuthGameMode w" "ValidateMessage s m out = (True, out)"
    and "Sender m = Some p" "0 \<le> MaxHistorySize (ChatSettings s)"
    and "PlayerMessageTimes s p = None
         \<or> (\<exists>t0. PlayerMessageTimes s p = Some t0
                 \<and> MessageCooldown (ChatSettings s) \<le> TimeSeconds w - t0)"
  shows "\<exists>s' rpcs. BroadcastMessage E s m out = Some (True, out, s', rpcs)
           \<and> PlayerMessageTimes s' p = Some (TimeSeconds w)
           \<and> ChatSettings s' = ChatSettings s"
  using assms
  by (auto simp: BroadcastMessage_def IsPlayerRateLimited_def Let_def AddToHistory_Some
           simp del: length_append)

lemma Example_Printf_1f_fifth: "Example_Printf_1f (1 / 5) = ''0.2''"
  by code_simp

text \<open>
  Claim C2. On the authority, let two messages of the same sender pass validation, the
  first submitted at time \<open>t1\<close> and not rate-limited (no recorded time, or one at least
  a cooldown old), the second submitted right after it at time \<open>t2\<close>. The first is
  accepted and \<open>t1\<close> is recorded for the sender. If \<open>t2 - t1\<close> is less than the
  cooldown, the second is rejected, the reason is built from exactly
  \<open>MessageCooldown - (t2 - t1)\<close>, and the subsystem is returned unchanged, so the
  recorded time stays \<open>t1\<close>. If \<open>t2 - t1\<close> is at least the cooldown, the second is
  accepted and \<open>t2\<close> is recorded. A sender with no recorded time is not rate-limited.
\<close>

theorem C2_rate_limit:
  assumes auth1: "GetWorld E1 = Some w1 \<and> AuthGameMode w1"
    and auth2: "GetWorld E2 = Some w2 \<and> AuthGameMode w2"
    and valid1: "ValidateMessage s m1 out1 = (True, out1)"
    and valid2: "ValidateMessage s m2 out2 = (True, out2)"
    and sender: "Sender m1 = Some p \<and> Sender m2 = Some p"
    and size: "0 \<le> MaxHistorySize (ChatSettings s)"
    and first: "PlayerMessageTimes s p = None
                \<or> (\<exists>t0. PlayerMessageTimes s p = Some t0
                        \<and> MessageCooldown (ChatSettings s) \<le> TimeSeconds w1 - t0)"
  shows "\<exists>s1 rpcs1.
           BroadcastMessage E1 s m1 out1 = Some (True, out1, s1, rpcs1)
           \<and> PlayerMessageTimes s1 p = Some (TimeSeconds w1)
           \<and> (TimeSeconds w2 - TimeSeconds w1 < MessageCooldown (ChatSettings s) \<longrightarrow>
                BroadcastMessage E2 s1 m2 out2
                  = Some (False,
                          ''Please wait ''
                          @ Printf_1f E2 (MessageCooldown (ChatSettings s)
                                          - (TimeSeconds w2 - TimeSeconds w1))
                          @ '' seconds before sending another message'', s1, []))
           \<and> (MessageCooldown (ChatSettings s) \<le> TimeSeconds w2 - TimeSeconds w1 \<longrightarrow>
                (\<exists>s2 rpcs2.
                   BroadcastMessage E2 s1 m2 out2 = Some (True, out2, s2, rpcs2)
                   \<and> PlayerMessageTimes s2 p = Some (TimeSeconds w2)))
           \<and> (PlayerMessageTimes s p = None \<longrightarrow>
                 IsPlayerRateLimited E1 s (Some p) out1
                   = (False, out1,
                      s\<lparr>PlayerMessageTimes := (PlayerMessageTimes s)(p \<mapsto> TimeSeconds w1)\<rparr>))"
proof -
  from auth1 have a1: "GetWorld E1 = Some w1" "AuthGameMode w1" by simp_all
  from auth2 have a2: "GetWorld E2 = Some w2" "AuthGameMode w2" by simp_all
  from sender have p1: "Sender m1 = Some p" and p2: "Sender m2 = Some p" by simp_all
  from BroadcastMessage_not_limited[OF a1 valid1 p1 size first]
  obtain s1 rpcs1 where
    b1: "BroadcastMessage E1 s m1 out1 = Some (True, out1, s1, rpcs1)" and
    t1: "PlayerMessageTimes s1 p = Some (TimeSeconds w1)" and
    c1: "ChatSettings s1 = ChatSettings s"
    by (elim exE conjE)
  from valid2 ValidateMessage_settings[OF c1]
  have v2: "ValidateMessage s1 m2 out2 = (True, out2)" by simp
  have limited: "BroadcastMessage E2 s1 m2 out2
                  = Some (False,
                          ''Please wait ''
                          @ Printf_1f E2 (MessageCooldown (ChatSettings s)
                                          - (TimeSeconds w2 - TimeSeconds w1))
                          @ '' seconds before sending another message'', s1, [])"
    if "TimeSeconds w2 - TimeSeconds w1 < MessageCooldown (ChatSettings s)"
    using BroadcastMessage_limited[OF a2 v2 p2 t1] c1 that by simp
  have passed: "\<exists>s2 rpcs2.
                   BroadcastMessage E2 s1 m2 out2 = Some (True, out2, s2, rpcs2)
                   \<and> PlayerMessageTimes s2 p = Some (TimeSeconds w2)"
    if "MessageCooldown (ChatSettings s) \<le> TimeSeconds w2 - TimeSeconds w1"
  proof -
    from that t1 c1
    have "PlayerMessageTimes s1 p = None
          \<or> (\<exists>t0. PlayerMessageTimes s1 p = Some t0
                  \<and> MessageCooldown (ChatSettings s1) \<le> TimeSeconds w2 - t0)" by simp
    from BroadcastMessage_not_limited[OF a2 v2 p2 _ this] size c1
    show ?thesis by auto
  qed
  have unknown: "IsPlayerRateLimited E1 s (Some p) out1
                   = (False, out1,
                      s\<lparr>PlayerMessageTimes := (PlayerMessageTimes s)(p \<mapsto> TimeSeconds w1)\<rparr>)"
    if "PlayerMessageTimes s p = None"
    using that a1 by (simp add: IsPlayerRateLimited_def Let_def)
  show ?thesis
    apply (rule exI[of _ s1], rule exI[of _ rpcs1])
    using b1 t1 limited passed unknown by simp
qed

text \<open>
  The scenario with a cooldown of half a second: accepted at 0; rejected at 0.3 with
  0.2 seconds remaining, the subsystem unchanged; accepted at 0.6.
\<close>

theorem C2_rate_limit_witness:
  "\<exists>s1 rpcs1 s2 rpcs2.
      BroadcastMessage (Example_Engine 0) Example_Subsystem
          (Example_Message (Some 11) ''hi'' Global None) []
        = Some (True, [], s1, rpcs1)
      \<and> PlayerMessageTimes s1 11 = Some 0
      \<and> BroadcastMessage (Example_Engine (3 / 10)) s1
          (Example_Message (Some 11) ''again'' Global None) []
        = Some (False, ''Please wait 0.2 seconds before sending another message'', s1, [])
      \<and> BroadcastMessage (Example_Engine (3 / 5)) s1
          (Example_Message (Some 11) ''again'' Global None) []
        = Some (True, [], s2, rpcs2)
      \<and> PlayerMessageTimes s2 11 = Some (3 / 5)"
proof -
  let ?s = Example_Subsystem
  let ?m1 = "Example_Message (Some 11) ''hi'' Global None"
  let ?m2 = "Example_Message (Some 11) ''again'' Global None"
  have w: "GetWorld (Example_Engine t) = Some \<lparr>AuthGameMode = True, TimeSeconds = t\<rparr>
           \<and> AuthGameMode \<lparr>AuthGameMode = True, TimeSeconds = t\<rparr>" for t
    by (simp add: Example_Engine_def)
  have v1: "ValidateMessage ?s ?m1 [] = (True, [])"
    by (simp add: ValidateMessage_def ex_defs)
  have v2: "ValidateMessage ?s ?m2 [] = (True, [])"
    by (simp add: ValidateMessage_def ex_defs)
  have p: "Sender ?m1 = Some 11 \<and> Sender ?m2 = Some 11"
    by (simp add: ex_defs)
  have size: "0 \<le> MaxHistorySize (ChatSettings ?s)"
    by (simp add: ex_defs)
  have first: "PlayerMessageTimes ?s 11 = None
               \<or> (\<exists>t0. PlayerMessageTimes ?s 11 = Some t0
                       \<and> MessageCooldown (ChatSettings ?s)
                          \<le> TimeSeconds \<lparr>AuthGameMode = True, TimeSeconds = 0\<rparr> - t0)"
    by (simp add: ex_defs)
  have cd: "MessageCooldown (ChatSettings ?s) = 1 / 2"
    by (simp add: ex_defs)
  have pf: "Printf_1f (Example_Engine t) = Example_Printf_1f" for t
    by (simp add: Example_Engine_def)
  from C2_rate_limit[OF w[of 0] w[of "3 / 10"] v1 v2 p size first]
  obtain s1 rpcs1 where
    a1: "BroadcastMessage (Example_Engine 0) ?s ?m1 [] = Some (True, [], s1, rpcs1)" and
    a2: "PlayerMessageTimes s1 11 = Some 0" and
    a3: "BroadcastMessage (Example_Engine (3 / 10)) s1 ?m2 []
        = Some (False, ''Please wait 0.2 seconds before sending another message'', s1, [])"
    by (simp add: cd pf Example_Printf_1f_fifth) blast
  from C2_rate_limit[OF w[of 0] w[of "3 / 5"] v1 v2 p size first]
  obtain s1' rpcs1' s2 rpcs2 where
    b1: "BroadcastMessage (Example_Engine 0) ?s ?m1 [] = Some (True, [], s1', rpcs1')" and
    b2: "BroadcastMessage (Example_Engine (3 / 5)) s1' ?m2 [] = Some (True, [], s2, rpcs2)" and
    b3: "PlayerMessageTimes s2 11 = Some (3 / 5)"
    by (simp add: cd) blast
  from a1 b1 have "s1' = s1" by simp
  with a1 a2 a3 b2 b3 show ?thesis by blast
qed

section \<open>Routing\<close>

lemma SendToAllPlayers_loop_set:
  "set (SendToAllPlayers_loop E cs m)
   = {ClientReceiveMessage c m | c. Some c \<in> set cs \<and> GetOwner E c \<noteq> None}"
  by (induction cs) (auto split: option.splits)

lemma SendToProximity_loop_set:
  "set (SendToProximity_loop E loc r2 cs m)
   = {ClientReceiveMessage c m | c PS Pawn.
        Some c \<in> set cs \<and> GetOwner E c = Some (APlayerState PS) \<and> GetPawn E PS = Some Pawn
        \<and> DistSquared E loc (GetActorLocation E Pawn) \<le> r2}"
proof (induction cs)
  case Nil
  then show ?case by simp
next
  case (Cons a cs)
  show ?case
  proof (cases a)
    case None
    with Cons show ?thesis by auto
  next
    case (Some c)
    with Cons show ?thesis
      by (auto split: option.splits AActor.splits)
  qed
qed



text \<open>
  Claim C5. An accepted Proximity message has a sender. If the sender has a pawn, the
  RPCs issued are exactly \<open>ClientReceiveMessage\<close> of this message on the registered
  components whose owner is a player state with a pawn at squared distance at most
  \<open>ProximityChatRadius * ProximityChatRadius\<close> from the sender's pawn, the boundary
  included. If the sender has no pawn nothing is sent. A component whose owner is not
  a player state with a pawn never receives.
\<close>

theorem C5_proximity:
  assumes accepted: "BroadcastMessage E s m out = Some (True, r, s', rpcs)"
    and channel: "Channel m = Proximity"
  shows "\<exists>p. Sender m = Some p
           \<and> (GetPawn E p = None \<longrightarrow> rpcs = [])
           \<and> (\<forall>SenderPawn. GetPawn E p = Some SenderPawn \<longrightarrow>
                (\<forall>x. x \<in> set rpcs \<longleftrightarrow>
                   (\<exists>c PS Pawn. x = ClientReceiveMessage c m
                      \<and> Some c \<in> set (RegisteredComponents s)
                      \<and> GetOwner E c = Some (APlayerState PS) \<and> GetPawn E PS = Some Pawn
                      \<and> DistSquared E (GetActorLocation E SenderPawn) (GetActorLocation E Pawn)
                          \<le> ProximityChatRadius (ChatSettings s)
                             * ProximityChatRadius (ChatSettings s))))
           \<and> (\<forall>c m'. ClientReceiveMessage c m' \<in> set rpcs \<longrightarrow>
                 (\<exists>PS Pawn. GetOwner E c = Some (APlayerState PS) \<and> GetPawn E PS = Some Pawn))"
proof -
  from BroadcastMessage_routes[OF accepted]
  have r: "rpcs = RouteMessage E s' m" and c: "RegisteredComponents s' = RegisteredComponents s"
    and st: "ChatSettings s' = ChatSettings s" and v: "ValidateMessage s m out = (True, out)"
    by simp_all
  from v channel obtain p where p: "Sender m = Some p"
    by (auto simp: ValidateMessage_def split: if_splits)
  from r channel p have rp: "rpcs = SendToProximity E s' m" by (simp add: RouteMessage_def)
  have none: "rpcs = []" if "GetPawn E p = None"
    using rp p that by (simp add: SendToProximity_def)
  have some: "set rpcs = {ClientReceiveMessage c m | c PS Pawn.
        Some c \<in> set (RegisteredComponents s) \<and> GetOwner E c = Some (APlayerState PS)
        \<and> GetPawn E PS = Some Pawn
        \<and> DistSquared E (GetActorLocation E SenderPawn) (GetActorLocation E Pawn)
             \<le> ProximityChatRadius (ChatSettings s) * ProximityChatRadius (ChatSettings s)}"
    if "GetPawn E p = Some SenderPawn" for SenderPawn
    using rp p that c st by (simp add: SendToProximity_def SendToProximity_loop_set)
  have pos: "\<exists>PS Pawn. GetOwner E c = Some (APlayerState PS) \<and> GetPawn E PS = Some Pawn"
    if "ClientReceiveMessage c m' \<in> set rpcs" for c m'
  proof (cases "GetPawn E p")
    case None
    with none that show ?thesis by simp
  next
    case (Some SenderPawn)
    from that some[OF Some] show ?thesis by auto
  qed
  have third: "x \<in> set rpcs \<longleftrightarrow>
                   (\<exists>c PS Pawn. x = ClientReceiveMessage c m
                      \<and> Some c \<in> set (RegisteredComponents s)
                      \<and> GetOwner E c = Some (APlayerState PS) \<and> GetPawn E PS = Some Pawn
                      \<and> DistSquared E (GetActorLocation E SenderPawn) (GetActorLocation E Pawn)
                          \<le> ProximityChatRadius (ChatSettings s)
                             * ProximityChatRadius (ChatSettings s))"
    if "GetPawn E p = Some SenderPawn" for SenderPawn x
    unfolding some[OF that] by blast
  show ?thesis
  proof (rule exI[of _ p], intro conjI)
    show "Sender m = Some p" by (rule p)
    show "GetPawn E p = None \<longrightarrow> rpcs = []" by (intro impI, rule none)
    show "\<forall>SenderPawn. GetPawn E p = Some SenderPawn \<longrightarrow>
                (\<forall>x. x \<in> set rpcs \<longleftrightarrow>
                   (\<exists>c PS Pawn. x = ClientReceiveMessage c m
                      \<and> Some c \<in> set (RegisteredComponents s)
                      \<and> GetOwner E c = Some (APlayerState PS) \<and> GetPawn E PS = Some Pawn
                      \<and> DistSquared E (GetActorLocation E SenderPawn) (GetActorLocation E Pawn)
                          \<le> ProximityChatRadius (ChatSettings s)
                             * ProximityChatRadius (ChatSettings s)))"
      by (intro allI impI, rule third)
    show "\<forall>c m'. ClientReceiveMessage c m' \<in> set rpcs \<longrightarrow>
                 (\<exists>PS Pawn. GetOwner E c = Some (APlayerState PS) \<and> GetPawn E PS = Some Pawn)"
      by (intro allI impI, rule pos)
  qed
qed

text \<open>
  In the example the sender's pawn stands at the origin and the radius is 500:
  components 1 and 2 (distance 0 and exactly 500) receive, component 3 (distance
  2000), component 4 (owner no player state) and component 5 (no pawn) do not. A
  message of player 15, who has no pawn, is accepted and sent to nobody.
\<close>

theorem C5_proximity_witness:
  "(\<exists>s' rpcs.
     BroadcastMessage (Example_Engine 0) Example_Subsystem
        (Example_Message (Some 11) ''near'' Proximity None) [] = Some (True, [], s', rpcs)
     \<and> ClientReceiveMessage 1 (Example_Message (Some 11) ''near'' Proximity None) \<in> set rpcs
     \<and> ClientReceiveMessage 2 (Example_Message (Some 11) ''near'' Proximity None) \<in> set rpcs
     \<and> ClientReceiveMessage 3 (Example_Message (Some 11) ''near'' Proximity None) \<notin> set rpcs
     \<and> ClientReceiveMessage 4 (Example_Message (Some 11) ''near'' Proximity None) \<notin> set rpcs
     \<and> ClientReceiveMessage 5 (Example_Message (Some 11) ''near'' Proximity None) \<notin> set rpcs)
   \<and> (\<exists>s'.
     BroadcastMessage (Example_Engine 0) Example_Subsystem
        (Example_Message (Some 15) ''lost'' Proximity None) [] = Some (True, [], s', []))"
proof -
  let ?E = "Example_Engine 0"
  let ?m = "Example_Message (Some 11) ''near'' Proximity None"
  let ?n = "Example_Message (Some 15) ''lost'' Proximity None"
  have "\<exists>s' rpcs. BroadcastMessage ?E Example_Subsystem ?m [] = Some (True, [], s', rpcs)"
    by (simp add: ex_defs eval_defs)
  then obtain s' rpcs where
    acc: "BroadcastMessage ?E Example_Subsystem ?m [] = Some (True, [], s', rpcs)" by blast
  have ch: "Channel ?m = Proximity" by (simp add: ex_defs)
  have snd: "Sender ?m = Some 11" by (simp add: ex_defs)
  have pawn: "GetPawn ?E 11 = Some 21" by (simp add: Example_Engine_def)
  from C5_proximity[OF acc ch] snd pawn
  have iff: "x \<in> set rpcs \<longleftrightarrow>
               (\<exists>c PS Pawn. x = ClientReceiveMessage c ?m
                  \<and> Some c \<in> set (RegisteredComponents Example_Subsystem)
                  \<and> GetOwner ?E c = Some (APlayerState PS) \<and> GetPawn ?E PS = Some Pawn
                  \<and> DistSquared ?E (GetActorLocation ?E 21) (GetActorLocation ?E Pawn)
                      \<le> ProximityChatRadius (ChatSettings Example_Subsystem)
                         * ProximityChatRadius (ChatSettings Example_Subsystem))" for x
    by simp
  note ev = Example_Engine_def Example_Subsystem_def Example_Settings_def
    Example_DistSquared_def
  have "ClientReceiveMessage 1 ?m \<in> set rpcs" unfolding iff by (simp add: ev)
  moreover have "ClientReceiveMessage 2 ?m \<in> set rpcs" unfolding iff by (simp add: ev)
  moreover have "ClientReceiveMessage 3 ?m \<notin> set rpcs" unfolding iff by (simp add: ev)
  moreover have "ClientReceiveMessage 4 ?m \<notin> set rpcs" unfolding iff by (simp add: ev)
  moreover have "ClientReceiveMessage 5 ?m \<notin> set rpcs" unfolding iff by (simp add: ev)
  ultimately have near: "\<exists>s' rpcs.
     BroadcastMessage ?E Example_Subsystem ?m [] = Some (True, [], s', rpcs)
     \<and> ClientReceiveMessage 1 ?m \<in> set rpcs \<and> ClientReceiveMessage 2 ?m \<in> set rpcs
     \<and> ClientReceiveMessage 3 ?m \<notin> set rpcs \<and> ClientReceiveMessage 4 ?m \<notin> set rpcs
     \<and> ClientReceiveMessage 5 ?m \<notin> set rpcs"
    using acc by blast
  have "\<exists>s' rpcs. BroadcastMessage ?E Example_Subsystem ?n [] = Some (True, [], s', rpcs)"
    by (simp add: ex_defs eval_defs)
  then obtain t' rpcs' where
    acc': "BroadcastMessage ?E Example_Subsystem ?n [] = Some (True, [], t', rpcs')" by blast
  have ch': "Channel ?n = Proximity" by (simp add: ex_defs)
  have snd': "Sender ?n = Some 15" by (simp add: ex_defs)
  have pawn': "GetPawn ?E 15 = None" by (simp add: Example_Engine_def)
  from C5_proximity[OF acc' ch'] snd' pawn' have "rpcs' = []" by auto
  with acc' have lost: "\<exists>s'. BroadcastMessage ?E Example_Subsystem ?n [] = Some (True, [], s', [])"
    by blast
  from near lost show ?thesis by (rule conjI)
qed



text \<open>A whisper of player 11 to player 11 is received twice by component 1.\<close>

lemma whisper_to_self_twice:
  "map_option (snd \<circ> snd \<circ> snd)
     (BroadcastMessage (Example_Engine 0) Example_Subsystem
        (Example_Message (Some 11) ''psst'' Whisper (Some 11)) [])
     = Some [ClientReceiveMessage 1 (Example_Message (Some 11) ''psst'' Whisper (Some 11)),
             ClientReceiveMessage 1 (Example_Message (Some 11) ''psst'' Whisper (Some 11))]"
  by (simp add: ex_defs eval_defs)


section \<open>System messages\<close>

text \<open>
  Claim C10. On the authority, with a \<open>MaxHistorySize\<close> that is not negative,
  \<open>BroadcastSystemMessage\<close> returns for every content and colour: the message with no
  sender, the name System and the channel System goes through \<open>AddToHistory\<close> (with
  \<open>MaxHistorySize\<close> at least 1 it is the newest entry afterwards) and is sent to every
  registered component that has an owner. No check on the content is made: where the
  content is empty while empty messages are not allowed, or longer than
  \<open>MaxMessageLength\<close>, \<open>BroadcastMessage\<close> rejects the very same message.
\<close>

theorem C10_system_message:
  assumes authority: "GetWorld E = Some w \<and> AuthGameMode w"
    and size: "0 \<le> MaxHistorySize (ChatSettings s)"
  shows "\<exists>s' rpcs.
           BroadcastSystemMessage E s content color = Some (s', rpcs)
           \<and> MessageHistory s'
               = drop (length (MessageHistory s
                                    @ [\<lparr>Sender = None, SenderName = ''System'',
                                        Content = content, Channel = System,
                                        Timestamp = DateTime_Now E, MessageColor = color,
                                        WhisperTarget = None\<rparr>])
                            - nat (MaxHistorySize (ChatSettings s)))
                      (MessageHistory s
                       @ [\<lparr>Sender = None, SenderName = ''System'', Content = content,
                           Channel = System, Timestamp = DateTime_Now E,
                           MessageColor = color, WhisperTarget = None\<rparr>])
           \<and> (1 \<le> MaxHistorySize (ChatSettings s) \<longrightarrow>
                last (MessageHistory s')
                  = \<lparr>Sender = None, SenderName = ''System'', Content = content,
                     Channel = System, Timestamp = DateTime_Now E,
                     MessageColor = color, WhisperTarget = None\<rparr>)
           \<and> set rpcs
               = {ClientReceiveMessage c
                    \<lparr>Sender = None, SenderName = ''System'', Content = content,
                     Channel = System, Timestamp = DateTime_Now E,
                     MessageColor = color, WhisperTarget = None\<rparr> | c.
                  Some c \<in> set (RegisteredComponents s) \<and> GetOwner E c \<noteq> None}
           \<and> (content = [] \<and> \<not> bAllowEmptyMessages (ChatSettings s)
                \<or> int (length content) > MaxMessageLength (ChatSettings s) \<longrightarrow>
                map_option fst
                  (BroadcastMessage E s
                     \<lparr>Sender = None, SenderName = ''System'', Content = content,
                      Channel = System, Timestamp = DateTime_Now E,
                      MessageColor = color, WhisperTarget = None\<rparr> out) = Some False)"
proof -
  let ?m = "\<lparr>Sender = None, SenderName = ''System'', Content = content,
             Channel = System, Timestamp = DateTime_Now E,
             MessageColor = color, WhisperTarget = None\<rparr>"
  let ?k = "length (MessageHistory s @ [?m]) - nat (MaxHistorySize (ChatSettings s))"
  let ?s' = "s\<lparr>MessageHistory := drop ?k (MessageHistory s @ [?m])\<rparr>"
  from authority
  have "BroadcastSystemMessage E s content color
        = (case AddToHistory s ?m of
             None \<Rightarrow> None
           | Some s' \<Rightarrow> Some (s', SendToAllPlayers E s' ?m))"
    by (simp add: BroadcastSystemMessage_def Let_def)
  also have "\<dots> = Some (?s', SendToAllPlayers E ?s' ?m)"
    by (simp only: AddToHistory_Some[OF size] option.case)
  also have "SendToAllPlayers E ?s' ?m = SendToAllPlayers_loop E (RegisteredComponents s) ?m"
    by (simp add: SendToAllPlayers_def)
  finally have b: "BroadcastSystemMessage E s content color
           = Some (?s', SendToAllPlayers_loop E (RegisteredComponents s) ?m)" .
  have l: "last (MessageHistory ?s') = ?m" if "1 \<le> MaxHistorySize (ChatSettings s)"
  proof -
    from that have "?k < length (MessageHistory s @ [?m])" by auto
    then have "last (drop ?k (MessageHistory s @ [?m])) = last (MessageHistory s @ [?m])"
      by (rule last_drop)
    then show ?thesis by simp
  qed
  have v: "map_option fst (BroadcastMessage E s ?m out) = Some False"
    if "content = [] \<and> \<not> bAllowEmptyMessages (ChatSettings s)
        \<or> int (length content) > MaxMessageLength (ChatSettings s)"
    using that authority by (auto simp: BroadcastMessage_def ValidateMessage_def)
  have h: "MessageHistory ?s' = drop ?k (MessageHistory s @ [?m])" by simp
  show ?thesis
  proof (rule exI[of _ ?s'],
         rule exI[of _ "SendToAllPlayers_loop E (RegisteredComponents s) ?m"], intro conjI)
    show "BroadcastSystemMessage E s content color
           = Some (?s', SendToAllPlayers_loop E (RegisteredComponents s) ?m)" by (rule b)
    show "MessageHistory ?s' = drop ?k (MessageHistory s @ [?m])" by (rule h)
    show "1 \<le> MaxHistorySize (ChatSettings s) \<longrightarrow> last (MessageHistory ?s') = ?m"
      by (intro impI, rule l)
    show "set (SendToAllPlayers_loop E (RegisteredComponents s) ?m)
          = {ClientReceiveMessage c ?m | c.
               Some c \<in> set (RegisteredComponents s) \<and> GetOwner E c \<noteq> None}"
      by (rule SendToAllPlayers_loop_set)
    show "content = [] \<and> \<not> bAllowEmptyMessages (ChatSettings s)
          \<or> int (length content) > MaxMessageLength (ChatSettings s) \<longrightarrow>
          map_option fst (BroadcastMessage E s ?m out) = Some False"
      by (intro impI, rule v)
  qed
qed

text \<open>The empty system message on the example subsystem.\<close>

theorem C10_system_message_witness:
  "\<exists>s' rpcs.
     BroadcastSystemMessage (Example_Engine 0) Example_Subsystem [] (1, 1, 0, 1)
       = Some (s', rpcs)
     \<and> MessageHistory s'
         = [\<lparr>Sender = None, SenderName = ''System'', Content = [],
             Channel = System, Timestamp = 0,
             MessageColor = (1, 1, 0, 1), WhisperTarget = None\<rparr>]
     \<and> set rpcs
         = {ClientReceiveMessage c
              \<lparr>Sender = None, SenderName = ''System'', Content = [],
               Channel = System, Timestamp = 0,
               MessageColor = (1, 1, 0, 1), WhisperTarget = None\<rparr> | c. c \<in> {1, 2, 3, 4, 5}}
     \<and> map_option fst
          (BroadcastMessage (Example_Engine 0) Example_Subsystem
             \<lparr>Sender = None, SenderName = ''System'', Content = [],
              Channel = System, Timestamp = 0,
              MessageColor = (1, 1, 0, 1), WhisperTarget = None\<rparr> []) = Some False"
proof -
  let ?E = "Example_Engine 0"
  have a: "GetWorld ?E = Some \<lparr>AuthGameMode = True, TimeSeconds = 0\<rparr>
           \<and> AuthGameMode \<lparr>AuthGameMode = True, TimeSeconds = 0::rat\<rparr>"
    by (simp add: Example_Engine_def)
  have sz: "0 \<le> MaxHistorySize (ChatSettings Example_Subsystem)"
    by (simp add: Example_Subsystem_def Example_Settings_def)
  have reg: "(Some c \<in> set (RegisteredComponents Example_Subsystem) \<and> GetOwner ?E c \<noteq> None)
             \<longleftrightarrow> c \<in> {1, 2, 3, 4, 5}" for c
    by (auto simp: Example_Subsystem_def Example_Engine_def)
  have vals: "DateTime_Now ?E = 0" "MessageHistory Example_Subsystem = []"
    "MaxHistorySize (ChatSettings Example_Subsystem) = 2"
    "bAllowEmptyMessages (ChatSettings Example_Subsystem) = False"
    by (simp_all add: Example_Subsystem_def Example_Settings_def Example_Engine_def)
  let ?m = "\<lparr>Sender = None, SenderName = ''System'', Content = [],
              Channel = System, Timestamp = 0,
              MessageColor = (1, 1, 0, 1), WhisperTarget = None\<rparr>
            :: (rat \<times> rat \<times> rat \<times> rat) FChatMessage"
  from C10_system_message[OF a sz, of "[]" "(1, 1, 0, 1)" "[]"]
  obtain s' rpcs where
    b: "BroadcastSystemMessage ?E Example_Subsystem [] (1, 1, 0, 1) = Some (s', rpcs)" and
    h: "MessageHistory s' = [?m]" and
    r: "set rpcs = {ClientReceiveMessage c ?m | c.
          Some c \<in> set (RegisteredComponents Example_Subsystem) \<and> GetOwner ?E c \<noteq> None}" and
    v: "map_option fst (BroadcastMessage ?E Example_Subsystem ?m []) = Some False"
    unfolding vals by (elim exE conjE) simp
  from r have "set rpcs = {ClientReceiveMessage c ?m | c. c \<in> {1, 2, 3, 4, 5}}"
    by (simp only: reg)
  with b h v show ?thesis by blast
qed

section \<open>Reception and muting\<close>

lemma RouteMessage_only_receive:
  "x \<in> set (RouteMessage E s m) \<Longrightarrow> \<exists>c. x = ClientReceiveMessage c m"
  by (cases "Channel m")
     (auto simp: RouteMessage_def SendToAllPlayers_def SendToTeam_def SendToPlayer_def
                 SendToProximity_def SendToAllPlayers_loop_set SendToProximity_loop_set
           split: option.splits if_splits)

lemma OnChatMessageReceived_muted:
  assumes "\<forall>x \<in> set rpcs. \<exists>c'. x = ClientReceiveMessage c' m"
    and "Sender m = Some p" and "p \<in> set (MutedPlayers (H c))"
  shows "OnChatMessageReceived H rpcs c = []"
  using assms
  by (induction rpcs)
     (auto simp: ClientReceiveMessage_Implementation_def IsPlayerMuted_def)

lemma OnChatMessageReceived_heard:
  assumes "ClientReceiveMessage c m \<in> set rpcs"
    and "ClientReceiveMessage_Implementation (H c) m = [m]"
  shows "m \<in> set (OnChatMessageReceived H rpcs c)"
  using assms
proof (induction rpcs)
  case Nil
  then show ?case by simp
next
  case (Cons a rpcs)
  then show ?case by (cases a) auto
qed

lemma OnChatMessageReceived_local:
  "H' c = H c \<Longrightarrow> OnChatMessageReceived H' rpcs c = OnChatMessageReceived H rpcs c"
proof (induction rpcs)
  case Nil
  then show ?case by simp
next
  case (Cons a rpcs)
  then show ?case by (cases a) auto
qed

lemma BroadcastMessage_newest:
  assumes "BroadcastMessage E s m out = Some (True, r, s', rpcs)"
    and "1 \<le> MaxHistorySize (ChatSettings s)"
  shows "last (MessageHistory s') = m"
proof -
  from BroadcastMessage_accepted[OF assms(1)] obtain s1 where
    a: "AddToHistory s1 m = Some s'" and c: "ChatSettings s1 = ChatSettings s" by blast
  let ?k = "length (MessageHistory s1 @ [m]) - nat (MaxHistorySize (ChatSettings s1))"
  from assms(2) c have z: "0 \<le> MaxHistorySize (ChatSettings s1)" by simp
  from a AddToHistory_Some[OF z, of m]
  have h: "MessageHistory s' = drop ?k (MessageHistory s1 @ [m])" by auto
  from assms(2) c have "?k < length (MessageHistory s1 @ [m])" by auto
  then have "last (drop ?k (MessageHistory s1 @ [m])) = last (MessageHistory s1 @ [m])"
    by (rule last_drop)
  with h show ?thesis by simp
qed

text \<open>
  Claim C7. Let a message be accepted by the authority and let \<open>H\<close> give the members of
  the components. At a component that has muted the sender the implementation of
  \<open>ClientReceiveMessage\<close> raises no event, so none of the RPCs issued raises one
  there. At a component that has not muted the sender, or for a message without
  sender, the implementation raises the event, so a component the message was sent
  to hears it. The message is stored in the history all the same (the newest entry
  when \<open>MaxHistorySize\<close> is at least 1): \<open>BroadcastMessage\<close> reads no mute list. A
  component muting a player changes nothing at any other component, and a Global
  message is heard by every registered component with an owner that has not muted the
  sender.
\<close>

theorem C7_mute:
  assumes accepted: "BroadcastMessage E s m out = Some (True, r, s', rpcs)"
  shows "(\<forall>c p. Sender m = Some p \<and> p \<in> set (MutedPlayers (H c)) \<longrightarrow>
            ClientReceiveMessage_Implementation (H c) m = []
            \<and> OnChatMessageReceived H rpcs c = [])
         \<and> (\<forall>c. Sender m = None \<or> (\<exists>p. Sender m = Some p \<and> p \<notin> set (MutedPlayers (H c))) \<longrightarrow>
              ClientReceiveMessage_Implementation (H c) m = [m]
              \<and> (ClientReceiveMessage c m \<in> set rpcs \<longrightarrow>
                   m \<in> set (OnChatMessageReceived H rpcs c)))
         \<and> (1 \<le> MaxHistorySize (ChatSettings s) \<longrightarrow> last (MessageHistory s') = m)
         \<and> (\<forall>a c p. c \<noteq> a \<longrightarrow>
               OnChatMessageReceived (H(a := MutePlayer E a (H a) (Some p))) rpcs c
               = OnChatMessageReceived H rpcs c)
         \<and> (\<forall>c p. Channel m = Global \<and> Sender m = Some p
                 \<and> p \<notin> set (MutedPlayers (H c))
                 \<and> Some c \<in> set (RegisteredComponents s) \<and> GetOwner E c \<noteq> None \<longrightarrow>
               m \<in> set (OnChatMessageReceived H rpcs c))"
proof (intro conjI allI impI)
  from BroadcastMessage_routes[OF accepted]
  have only: "\<forall>x \<in> set rpcs. \<exists>c'. x = ClientReceiveMessage c' m"
    by (auto dest: RouteMessage_only_receive)
  {
    fix c p assume a: "Sender m = Some p \<and> p \<in> set (MutedPlayers (H c))"
    then show "ClientReceiveMessage_Implementation (H c) m = []"
      by (simp add: ClientReceiveMessage_Implementation_def IsPlayerMuted_def)
    from a OnChatMessageReceived_muted[OF only, of p H c]
    show "OnChatMessageReceived H rpcs c = []" by simp
  }
  {
    fix c assume a: "Sender m = None \<or> (\<exists>p. Sender m = Some p \<and> p \<notin> set (MutedPlayers (H c)))"
    then show i: "ClientReceiveMessage_Implementation (H c) m = [m]"
      by (auto simp: ClientReceiveMessage_Implementation_def IsPlayerMuted_def)
    assume "ClientReceiveMessage c m \<in> set rpcs"
    then show "m \<in> set (OnChatMessageReceived H rpcs c)"
      using i by (rule OnChatMessageReceived_heard)
  }
  {
    assume "1 \<le> MaxHistorySize (ChatSettings s)"
    with accepted show "last (MessageHistory s') = m" by (rule BroadcastMessage_newest)
  }
  {
    fix a c :: nat and p assume "c \<noteq> a"
    then show "OnChatMessageReceived (H(a := MutePlayer E a (H a) (Some p))) rpcs c
               = OnChatMessageReceived H rpcs c"
      by (intro OnChatMessageReceived_local) simp
  }
  {
    fix c p
    assume a: "Channel m = Global \<and> Sender m = Some p \<and> p \<notin> set (MutedPlayers (H c))
               \<and> Some c \<in> set (RegisteredComponents s) \<and> GetOwner E c \<noteq> None"
    with BroadcastMessage_routes[OF accepted]
    have "rpcs = SendToAllPlayers_loop E (RegisteredComponents s) m"
      by (simp add: RouteMessage_def SendToAllPlayers_def)
    with a have d: "ClientReceiveMessage c m \<in> set rpcs"
      by (simp add: SendToAllPlayers_loop_set)
    from a have "ClientReceiveMessage_Implementation (H c) m = [m]"
      by (simp add: ClientReceiveMessage_Implementation_def IsPlayerMuted_def)
    with d show "m \<in> set (OnChatMessageReceived H rpcs c)"
      by (rule OnChatMessageReceived_heard)
  }
qed

text \<open>
  A Global message of player 11 in the example: component 2, which has muted player
  11, hears nothing; component 3 hears the message; the history holds it.
\<close>

theorem C7_mute_witness:
  "\<exists>s' rpcs.
     BroadcastMessage (Example_Engine 0) Example_Subsystem
        (Example_Message (Some 11) ''hello'' Global None) [] = Some (True, [], s', rpcs)
     \<and> OnChatMessageReceived Example_Components rpcs 2 = []
     \<and> Example_Message (Some 11) ''hello'' Global None
         \<in> set (OnChatMessageReceived Example_Components rpcs 3)
     \<and> last (MessageHistory s') = Example_Message (Some 11) ''hello'' Global None"
proof -
  let ?E = "Example_Engine 0"
  let ?m = "Example_Message (Some 11) ''hello'' Global None"
  have "\<exists>s' rpcs. BroadcastMessage ?E Example_Subsystem ?m [] = Some (True, [], s', rpcs)
          \<and> ClientReceiveMessage 3 ?m \<in> set rpcs"
    by (simp add: ex_defs eval_defs)
  then obtain s' rpcs where
    acc: "BroadcastMessage ?E Example_Subsystem ?m [] = Some (True, [], s', rpcs)" and
    d3: "ClientReceiveMessage 3 ?m \<in> set rpcs" by blast
  note C = C7_mute[OF acc, of Example_Components]
  have muted: "Sender ?m = Some 11 \<and> 11 \<in> set (MutedPlayers (Example_Components 2))"
    by (simp add: ex_defs Example_Components_def)
  have unmuted: "Sender ?m = None
                 \<or> (\<exists>p. Sender ?m = Some p \<and> p \<notin> set (MutedPlayers (Example_Components 3)))"
    by (simp add: ex_defs Example_Components_def)
  have sz: "1 \<le> MaxHistorySize (ChatSettings Example_Subsystem)"
    by (simp add: ex_defs)
  from C muted have "OnChatMessageReceived Example_Components rpcs 2 = []" by blast
  moreover from C unmuted d3
  have "?m \<in> set (OnChatMessageReceived Example_Components rpcs 3)" by blast
  moreover from C sz have "last (MessageHistory s') = ?m" by blast
  ultimately show ?thesis using acc by blast
qed

section \<open>The client side of a submission\<close>

text \<open>
  Claim C8. A submission of more than 1024 characters fails
  \<open>ServerSendMessage_Validate\<close>, whatever the settings: the implementation does not
  run, so neither validation nor the history nor any delivery is reached. A non-empty
  submission of at most 1024 characters runs the implementation, and it is there that
  a content longer than the configured \<open>MaxMessageLength\<close> is refused with the
  reason naming that maximum.
\<close>

theorem C8_hard_cap:
  "(1024 < length content \<longrightarrow>
      execServerSendMessage E Subsystem this content channel target = ValidateFailed)
   \<and> (content \<noteq> [] \<and> length content \<le> 1024 \<longrightarrow>
        execServerSendMessage E Subsystem this content channel target
          = Executed (ServerSendMessage_Implementation E Subsystem this content channel target))
   \<and> (content \<noteq> [] \<and> length content \<le> 1024
        \<and> int (length content) > MaxMessageLength (ChatSettings s)
        \<and> GetWorld E = Some w \<and> AuthGameMode w \<and> GetOwningPlayerState E this = Some ps \<longrightarrow>
        execServerSendMessage E (Some s) this content channel target
          = Executed (Some (Some s,
               [ClientNotifyMessageFailed this
                  (''Message too long (max '' @ Printf_d (MaxMessageLength (ChatSettings s))
                   @ '' characters)'')])))"
  by (auto simp: execServerSendMessage_def ServerSendMessage_Validate_def
                 ServerSendMessage_Implementation_def BroadcastMessage_def ValidateMessage_def
                 FChatMessage_ctor_def Let_def)

text \<open>
  With \<open>MaxMessageLength\<close> set to 5000, a content of 2000 characters is still turned
  away by the hard cap; with it set to 10, a content of 11 characters reaches the
  authority and is refused there.
\<close>

theorem C8_hard_cap_witness:
  "execServerSendMessage (Example_Engine 0)
     (Some (Example_Subsystem\<lparr>ChatSettings := Example_Settings\<lparr>MaxMessageLength := 5000\<rparr>\<rparr>))
     1 (replicate 2000 (CHR ''a'')) Global None = ValidateFailed
   \<and> execServerSendMessage (Example_Engine 0) (Some Example_Subsystem)
       1 ''hello world'' Global None
     = Executed (Some (Some Example_Subsystem,
         [ClientNotifyMessageFailed 1 ''Message too long (max 10 characters)'']))"
proof -
  let ?E = "Example_Engine 0"
  let ?big = "Some (Example_Subsystem\<lparr>ChatSettings := Example_Settings\<lparr>MaxMessageLength := 5000\<rparr>\<rparr>)"
  have "1024 < length (replicate 2000 (CHR ''a''))" by simp
  with C8_hard_cap[of "replicate 2000 (CHR ''a'')" ?E ?big 1 Global None]
  have a: "execServerSendMessage ?E ?big 1 (replicate 2000 (CHR ''a'')) Global None
           = ValidateFailed" by blast
  have "''hello world'' \<noteq> [] \<and> length ''hello world'' \<le> 1024
        \<and> int (length ''hello world'') > MaxMessageLength (ChatSettings Example_Subsystem)
        \<and> GetWorld ?E = Some \<lparr>AuthGameMode = True, TimeSeconds = 0\<rparr>
        \<and> AuthGameMode \<lparr>AuthGameMode = True, TimeSeconds = 0::rat\<rparr>
        \<and> GetOwningPlayerState ?E 1 = Some 11"
    by (simp add: ex_defs GetOwningPlayerState_def)
  with C8_hard_cap[of "''hello world''" ?E _ 1 Global None Example_Subsystem
                      "\<lparr>AuthGameMode = True, TimeSeconds = 0\<rparr>" 11]
  have "execServerSendMessage ?E (Some Example_Subsystem) 1 ''hello world'' Global None
        = Executed (Some (Some Example_Subsystem,
            [ClientNotifyMessageFailed 1
               (''Message too long (max ''
                @ Printf_d (MaxMessageLength (ChatSettings Example_Subsystem))
                @ '' characters)'')]))" by blast
  then have b: "execServerSendMessage ?E (Some Example_Subsystem) 1 ''hello world'' Global None
        = Executed (Some (Some Example_Subsystem,
            [ClientNotifyMessageFailed 1 ''Message too long (max 10 characters)'']))"
    by (simp add: Example_Subsystem_def Example_Settings_def Printf_d_10)
  from a b show ?thesis by (rule conjI)
qed

text \<open>
  Claim C9, as amended. For each of \<open>SendChatMessage\<close>, \<open>SendWhisper\<close> and
  \<open>SendProximityMessage\<close>: when the content is empty, or the target of a whisper is
  null, or the owner of the component is not a player state, the send is dropped in
  silence, with no notification and no call of the server. Otherwise, with a
  subsystem at hand, a content longer than \<open>MaxMessageLength\<close> yields exactly one
  \<open>ClientNotifyMessageFailed\<close> and no call of the server; so does, where the world is
  there to read the time from, a send before the local cooldown has passed; and a
  send after it yields exactly the call of \<open>ServerSendMessage\<close> and records the time.
  Without a subsystem the content is not checked and the call is made.
\<close>

theorem C9_client_precheck:
  assumes send: "(res, call, null_target) \<in>
       {(SendChatMessage E Subsystem this self content channel,
           ServerSendMessage this content channel None, False),
        (SendWhisper E Subsystem this self target content,
           ServerSendMessage this content Whisper target, target = None),
        (SendProximityMessage E Subsystem this self content,
           ServerSendMessage this content Proximity None, False)}"
  shows "(content = [] \<or> null_target \<or> GetOwningPlayerState E this = None \<longrightarrow>
            res = Some (self, []))
         \<and> (content \<noteq> [] \<and> \<not> null_target \<and> GetOwningPlayerState E this \<noteq> None
              \<and> Subsystem = Some sub
              \<and> int (length content) > MaxMessageLength (ChatSettings sub) \<longrightarrow>
              res = Some (self,
                      [ClientNotifyMessageFailed this
                         (''Message too long (max ''
                          @ Printf_d (MaxMessageLength (ChatSettings sub))
                          @ '' characters)'')]))
         \<and> (content \<noteq> [] \<and> \<not> null_target \<and> GetOwningPlayerState E this \<noteq> None
              \<and> Subsystem = Some sub
              \<and> \<not> int (length content) > MaxMessageLength (ChatSettings sub)
              \<and> GetWorld E = Some w
              \<and> TimeSeconds w - LastMessageTime self < MessageCooldown (ChatSettings sub) \<longrightarrow>
              res = Some (self,
                      [ClientNotifyMessageFailed this
                         (''Please wait ''
                          @ Printf_1f E (MessageCooldown (ChatSettings sub)
                                         - (TimeSeconds w - LastMessageTime self))
                          @ '' seconds before sending another message'')]))
         \<and> (content \<noteq> [] \<and> \<not> null_target \<and> GetOwningPlayerState E this \<noteq> None
              \<and> Subsystem = Some sub
              \<and> \<not> int (length content) > MaxMessageLength (ChatSettings sub)
              \<and> GetWorld E = Some w
              \<and> \<not> TimeSeconds w - LastMessageTime self < MessageCooldown (ChatSettings sub) \<longrightarrow>
              res = Some (self\<lparr>LastMessageTime := TimeSeconds w\<rparr>, [call]))
         \<and> (content \<noteq> [] \<and> \<not> null_target \<and> GetOwningPlayerState E this \<noteq> None
              \<and> Subsystem = None \<longrightarrow>
              res = Some (self, [call]))"
  using assms
  by (auto simp: SendChatMessage_def SendWhisper_def SendProximityMessage_def
                 ValidateMessageLocally_def Let_def)

text \<open>
  The claim as stated fails in three places. On an empty content
  \<open>ValidateMessageLocally\<close> does fail, but \<open>SendChatMessage\<close> returns before calling it
  and issues no notification. On a whisper with a null target, and on a component
  whose owner is no player state, a content that passes \<open>ValidateMessageLocally\<close> is
  not forwarded.
\<close>

theorem C9_client_precheck_counterexample:
  "ValidateMessageLocally (Example_Engine 1) (Some Example_Subsystem) (Example_Components 1)
       [] []
     = Some (False, ''Message cannot be empty'', Example_Components 1)
   \<and> SendChatMessage (Example_Engine 1) (Some Example_Subsystem) 1 (Example_Components 1)
       [] Global
     = Some (Example_Components 1, [])
   \<and> ValidateMessageLocally (Example_Engine 1) (Some Example_Subsystem) (Example_Components 1)
       ''psst'' []
     = Some (True, [], (Example_Components 1)\<lparr>LastMessageTime := 1\<rparr>)
   \<and> SendWhisper (Example_Engine 1) (Some Example_Subsystem) 1 (Example_Components 1)
       None ''psst''
     = Some (Example_Components 1, [])
   \<and> ValidateMessageLocally (Example_Engine 1) (Some Example_Subsystem) (Example_Components 4)
       ''psst'' []
     = Some (True, [], (Example_Components 4)\<lparr>LastMessageTime := 1\<rparr>)
   \<and> SendChatMessage (Example_Engine 1) (Some Example_Subsystem) 4 (Example_Components 4)
       ''psst'' Global
     = Some (Example_Components 4, [])"
  by (simp add: ValidateMessageLocally_def SendChatMessage_def SendWhisper_def
                GetOwningPlayerState_def Example_Engine_def Example_Subsystem_def
                Example_Settings_def Example_Components_def)

text \<open>The seven cases in the example, component 1 having last sent at time 0.\<close>

theorem C9_client_precheck_witness:
  "SendChatMessage (Example_Engine 1) (Some Example_Subsystem) 1 (Example_Components 1)
       [] Global
     = Some (Example_Components 1, [])
   \<and> SendWhisper (Example_Engine 1) (Some Example_Subsystem) 1 (Example_Components 1)
       None ''psst''
     = Some (Example_Components 1, [])
   \<and> SendProximityMessage (Example_Engine 1) (Some Example_Subsystem) 4 (Example_Components 4)
       ''hello''
     = Some (Example_Components 4, [])
   \<and> SendProximityMessage (Example_Engine 1) (Some Example_Subsystem) 1 (Example_Components 1)
       ''hello world''
     = Some (Example_Components 1,
             [ClientNotifyMessageFailed 1 ''Message too long (max 10 characters)''])
   \<and> SendWhisper (Example_Engine (3 / 10)) (Some Example_Subsystem) 1 (Example_Components 1)
       (Some 12) ''psst''
     = Some (Example_Components 1,
             [ClientNotifyMessageFailed 1
                ''Please wait 0.2 seconds before sending another message''])
   \<and> SendWhisper (Example_Engine 1) (Some Example_Subsystem) 1 (Example_Components 1)
       (Some 12) ''psst''
     = Some ((Example_Components 1)\<lparr>LastMessageTime := 1\<rparr>,
             [ServerSendMessage 1 ''psst'' Whisper (Some 12)])
   \<and> SendChatMessage (Example_Engine 1) None 1 (Example_Components 1) ''hello'' Team
     = Some (Example_Components 1, [ServerSendMessage 1 ''hello'' Team None])"
proof -
  let ?S = "Some Example_Subsystem"
  let ?self = "Example_Components 1"
  have owner: "GetOwningPlayerState (Example_Engine t) 1 = Some 11"
    "GetOwningPlayerState (Example_Engine t) (Suc 0) = Some 11"
    "GetOwningPlayerState (Example_Engine t) 4 = None" for t
    by (simp_all add: Example_Engine_def GetOwningPlayerState_def)
  have world: "GetWorld (Example_Engine t) = Some \<lparr>AuthGameMode = True, TimeSeconds = t\<rparr>" for t
    by (simp add: Example_Engine_def)
  have vals: "MaxMessageLength (ChatSettings Example_Subsystem) = 10"
    "MessageCooldown (ChatSettings Example_Subsystem) = 1 / 2"
    "LastMessageTime (Example_Components c) = 0" for c
    by (simp_all add: Example_Subsystem_def Example_Settings_def Example_Components_def)
  have pf: "Printf_1f (Example_Engine t) = Example_Printf_1f" for t
    by (simp add: Example_Engine_def)
  have a: "SendChatMessage (Example_Engine 1) ?S 1 ?self [] Global = Some (?self, [])"
    using C9_client_precheck[where E = "Example_Engine 1" and this = 1 and self = ?self
             and content = "[]" and Subsystem = ?S and channel = Global
             and res = "SendChatMessage (Example_Engine 1) ?S 1 ?self [] Global"
             and call = "ServerSendMessage 1 [] Global None" and null_target = False]
    by simp
  have a2: "SendWhisper (Example_Engine 1) ?S 1 ?self None ''psst'' = Some (?self, [])"
    using C9_client_precheck[where E = "Example_Engine 1" and this = 1 and self = ?self
             and content = "''psst''" and Subsystem = ?S and target = None
             and res = "SendWhisper (Example_Engine 1) ?S 1 ?self None ''psst''"
             and call = "ServerSendMessage 1 ''psst'' Whisper None" and null_target = True]
    by simp
  have a3: "SendProximityMessage (Example_Engine 1) ?S 4 (Example_Components 4) ''hello''
            = Some (Example_Components 4, [])"
    using C9_client_precheck[where E = "Example_Engine 1" and this = 4 and self = "Example_Components 4"
             and content = "''hello''" and Subsystem = ?S
             and res = "SendProximityMessage (Example_Engine 1) ?S 4 (Example_Components 4)
                          ''hello''"
             and call = "ServerSendMessage 4 ''hello'' Proximity None" and null_target = False]
    by (simp add: owner)
  have b: "SendProximityMessage (Example_Engine 1) ?S 1 ?self ''hello world''
           = Some (?self, [ClientNotifyMessageFailed 1 ''Message too long (max 10 characters)''])"
    using C9_client_precheck[where E = "Example_Engine 1" and this = 1 and self = ?self
             and content = "''hello world''" and Subsystem = ?S and sub = Example_Subsystem
             and res = "SendProximityMessage (Example_Engine 1) ?S 1 ?self ''hello world''"
             and call = "ServerSendMessage 1 ''hello world'' Proximity None"
             and null_target = False]
    by (simp add: vals owner Printf_d_10)
  have c: "SendWhisper (Example_Engine (3 / 10)) ?S 1 ?self (Some 12) ''psst''
           = Some (?self, [ClientNotifyMessageFailed 1
                ''Please wait 0.2 seconds before sending another message''])"
    using C9_client_precheck[where E = "Example_Engine (3 / 10)" and this = 1 and self = ?self
             and content = "''psst''" and Subsystem = ?S and sub = Example_Subsystem
             and target = "Some 12" and w = "\<lparr>AuthGameMode = True, TimeSeconds = 3 / 10\<rparr>"
             and res = "SendWhisper (Example_Engine (3 / 10)) ?S 1 ?self (Some 12) ''psst''"
             and call = "ServerSendMessage 1 ''psst'' Whisper (Some 12)"
             and null_target = False]
    by (simp add: vals owner world pf Example_Printf_1f_fifth)
  have d: "SendWhisper (Example_Engine 1) ?S 1 ?self (Some 12) ''psst''
           = Some (?self\<lparr>LastMessageTime := 1\<rparr>, [ServerSendMessage 1 ''psst'' Whisper (Some 12)])"
    using C9_client_precheck[where E = "Example_Engine 1" and this = 1 and self = ?self
             and content = "''psst''" and Subsystem = ?S and sub = Example_Subsystem
             and target = "Some 12" and w = "\<lparr>AuthGameMode = True, TimeSeconds = 1\<rparr>"
             and res = "SendWhisper (Example_Engine 1) ?S 1 ?self (Some 12) ''psst''"
             and call = "ServerSendMessage 1 ''psst'' Whisper (Some 12)"
             and null_target = False]
    by (simp add: vals owner world)
  have e: "SendChatMessage (Example_Engine 1) None 1 ?self ''hello'' Team
           = Some (?self, [ServerSendMessage 1 ''hello'' Team None])"
    using C9_client_precheck[where E = "Example_Engine 1" and this = 1 and self = ?self
             and content = "''hello''" and Subsystem = None and channel = Team
             and res = "SendChatMessage (Example_Engine 1) None 1 ?self ''hello'' Team"
             and call = "ServerSendMessage 1 ''hello'' Team None" and null_target = False]
    by (simp add: owner)
  from a a2 a3 b c d e show ?thesis by (intro conjI)
qed

end
